theory Spec2Isabelle
  imports Complex_Main
begin

section \<open>Conventions of the embedding\<close>

text \<open>
  The four analyzers of the monitor (\<^verbatim>\<open>tpo_analyzer.py\<close>, \<^verbatim>\<open>vwap_calculator.py\<close>,
  \<^verbatim>\<open>orderflow_analyzer.py\<close>, \<^verbatim>\<open>signal_engine.py\<close>) with the data classes of
  \<^verbatim>\<open>models.py\<close> and the helpers of \<^verbatim>\<open>utils.py\<close> are embedded as HOL functions.
  \<^item> Python \<^verbatim>\<open>float\<close> is modelled by \<^typ>\<open>real\<close>: rounding error, infinities and NaN are
    outside the model. Python \<^verbatim>\<open>int\<close> is \<^typ>\<open>int\<close>, or \<^typ>\<open>nat\<close> for counters and list
    indices that never go below zero.
  \<^item> An object's attributes are a record; a method takes the record and returns the
    updated one.
  \<^item> An exception is a value of \<open>error\<close>. HOL's \<open>x / 0 = 0\<close> is never relied upon: every
    division of the source whose divisor can be zero is guarded in the model by the raise
    that Python performs.
  \<^item> A \<^verbatim>\<open>dict\<close> is an association list in insertion order (the iteration order of a
    Python dict), a \<^verbatim>\<open>deque(maxlen=n)\<close> is a list cut to its last \<open>n\<close> elements.
  \<^item> Logging is left out.
\<close>

datatype error = ZeroDivisionError | ValueError | TypeError

section \<open>Dictionaries in insertion order\<close>

text \<open>\<^verbatim>\<open>d[k] = v\<close>: an existing key keeps its place, a new key goes to the end.\<close>

fun dict_set :: "('k \<times> 'v) list \<Rightarrow> 'k \<Rightarrow> 'v \<Rightarrow> ('k \<times> 'v) list" where
  "dict_set [] k v = [(k, v)]"
| "dict_set ((k', v') # d) k v =
     (if k' = k then (k', v) # d else (k', v') # dict_set d k v)"

text \<open>\<^verbatim>\<open>d[k]\<close> on a \<^verbatim>\<open>defaultdict\<close> whose factory yields \<open>dflt\<close>.\<close>

definition dd_get :: "'v \<Rightarrow> ('k \<times> 'v) list \<Rightarrow> 'k \<Rightarrow> 'v" where
  "dd_get dflt d k = (case map_of d k of None \<Rightarrow> dflt | Some v \<Rightarrow> v)"

text \<open>
  \<^verbatim>\<open>max(items, key=lambda x: x[1])\<close>: Python keeps the first item met and replaces it
  only by an item whose key is strictly greater.
\<close>

fun py_max_key :: "('k \<times> real) \<Rightarrow> ('k \<times> real) list \<Rightarrow> ('k \<times> real)" where
  "py_max_key best [] = best"
| "py_max_key best (x # xs) = py_max_key (if snd best < snd x then x else best) xs"

text \<open>\<^verbatim>\<open>xs.index(x)\<close> for an \<open>x\<close> that occurs in \<open>xs\<close> (the only use in the source).\<close>

definition index_of :: "'a list \<Rightarrow> 'a \<Rightarrow> nat" where
  "index_of xs x = length (takeWhile (\<lambda>y. y \<noteq> x) xs)"

section \<open>Data classes of models.py\<close>

text \<open>
  Field names are those of the source. Where two classes share a field name, or a name is
  taken by HOL, the field carries a short prefix or suffix (\<open>open_px\<close> for \<^verbatim>\<open>open\<close>).
\<close>

record Candle =
  timestamp :: int
  open_px :: real
  high :: real
  low :: real
  close :: real
  volume :: real

record TPOProfile =
  session_start :: int
  session_end :: int
  poc :: real
  vah :: real
  val :: real
  price_levels :: "(real \<times> real) list"
  tpo_letters :: "(real \<times> string) list"
  total_volume :: real
  value_area_volume :: real

datatype TPOStructureEvent =
    VAL_BOUNCE | VAL_BREAK | VAH_REJECTION | VAH_BREAKOUT
  | POC_RECLAIM | POC_BREAKDOWN | INSIDE_VALUE_AREA | OUTSIDE_VALUE_AREA

text \<open>\<^verbatim>\<open>TPOProfile.is_inside_value_area\<close>.\<close>

definition is_inside_value_area :: "TPOProfile \<Rightarrow> real \<Rightarrow> bool" where
  "is_inside_value_area p price \<longleftrightarrow> val p \<le> price \<and> price \<le> vah p"

text \<open>\<^verbatim>\<open>TPOProfile.distance_to_poc\<close>.\<close>

definition distance_to_poc :: "TPOProfile \<Rightarrow> real \<Rightarrow> real" where
  "distance_to_poc p price = \<bar>price - poc p\<bar>"

section \<open>utils.py\<close>

text \<open>
  The day of the month of a UTC timestamp in milliseconds, as
  \<^verbatim>\<open>datetime.fromtimestamp(ms / 1000, tz=timezone.utc).day\<close> gives it (proleptic Gregorian
  calendar; the year range of \<^verbatim>\<open>datetime\<close> is not modelled). The standard library is
  not part of the repository; this is the usual days-to-civil-date computation.
\<close>

definition day_of_month :: "int \<Rightarrow> int" where
  "day_of_month timestamp_ms =
     (let z = timestamp_ms div 86400000 + 719468;
          doe = z mod 146097;
          yoe = (doe - doe div 1460 + doe div 36524 - doe div 146096) div 365;
          doy = doe - (365 * yoe + yoe div 4 - yoe div 100);
          mp = (5 * doy + 2) div 153
      in doy - (153 * mp + 2) div 5 + 1)"

text \<open>
  \<^verbatim>\<open>get_session_start\<close>. The string \<^verbatim>\<open>"HH:MM"\<close> is taken already parsed into \<open>hour\<close>
  and \<open>minute\<close>. \<^verbatim>\<open>dt.replace(hour=.., minute=..)\<close> raises ValueError outside
  \<open>0..23\<close> and \<open>0..59\<close>. When the time of day is before the session time the source
  calls \<^verbatim>\<open>session_start.replace(day=session_start.day - 1)\<close>, which raises ValueError
  on the first day of a month (day 0 does not exist) and otherwise goes back one day.
\<close>

definition get_session_start :: "int \<Rightarrow> nat \<Rightarrow> nat \<Rightarrow> error + int" where
  "get_session_start timestamp_ms hour minute =
     (if 24 \<le> hour \<or> 60 \<le> minute then Inl ValueError
      else
        let time_of_day = timestamp_ms mod 86400000;
            midnight = timestamp_ms - time_of_day;
            offset = (int hour * 60 + int minute) * 60000
        in if time_of_day < offset then
             (if day_of_month timestamp_ms = 1 then Inl ValueError
              else Inr (midnight + offset - 86400000))
           else Inr (midnight + offset))"

text \<open>\<^verbatim>\<open>calculate_percent_change\<close>: the guarded percentage.\<close>

definition calculate_percent_change :: "real \<Rightarrow> real \<Rightarrow> real" where
  "calculate_percent_change old_value new_value =
     (if old_value = 0 then 0 else ((new_value - old_value) / old_value) * 100)"

text \<open>\<^verbatim>\<open>is_near\<close>: guarded against \<^verbatim>\<open>price2 == 0\<close>.\<close>

definition is_near :: "real \<Rightarrow> real \<Rightarrow> real \<Rightarrow> bool" where
  "is_near price1 price2 tolerance_percent =
     (if price2 = 0 then False
      else \<bar>(price1 - price2) / price2\<bar> * 100 \<le> tolerance_percent)"

text \<open>
  \<^verbatim>\<open>calculate_slope\<close>: least-squares slope of the values against their indices
  \<open>0, 1, ..\<close>; \<open>0\<close> for fewer than two values or a zero denominator.
\<close>

definition calculate_slope :: "real list \<Rightarrow> real" where
  "calculate_slope values =
     (if length values < 2 then 0
      else
        let n = length values;
            x_mean = (\<Sum>i \<leftarrow> [0..<n]. real i) / real n;
            y_mean = sum_list values / real n;
            numerator = (\<Sum>i \<leftarrow> [0..<n]. (real i - x_mean) * (values ! i - y_mean));
            denominator = (\<Sum>i \<leftarrow> [0..<n]. (real i - x_mean) ^ 2)
        in if denominator = 0 then 0 else numerator / denominator)"

text \<open>Python's \<^verbatim>\<open>round(x)\<close> with one argument: to the nearest integer, ties to even.\<close>

definition py_round :: "real \<Rightarrow> int" where
  "py_round x =
     (if x - of_int \<lfloor>x\<rfloor> = 1 / 2
      then (if even \<lfloor>x\<rfloor> then \<lfloor>x\<rfloor> else \<lfloor>x\<rfloor> + 1)
      else \<lfloor>x + 1 / 2\<rfloor>)"

definition round_to_tick :: "real \<Rightarrow> real \<Rightarrow> real" where
  "round_to_tick price tick = of_int (py_round (price / tick)) * tick"

section \<open>TPOAnalyzer (tpo_analyzer.py)\<close>

text \<open>
  The options read by the constructor; \<^verbatim>\<open>session_start\<close> (\<^verbatim>\<open>"HH:MM"\<close>) is held parsed.
\<close>

record tpo_config =
  session_start_hour :: nat
  session_start_minute :: nat
  session_duration_hours :: int
  time_slice_minutes :: real
  value_area_percent :: real
  proximity_ticks :: real

record TPOAnalyzer =
  current_session_start :: "int option"
  current_profile :: "TPOProfile option"
  previous_profile :: "TPOProfile option"
  price_volume_map :: "(real \<times> real) list"
  price_time_map :: "(real \<times> string) list"
  current_letter_index :: nat
  last_slice_time :: "int option"
  last_price :: "real option"

text \<open>\<^verbatim>\<open>self.tick_size = 0.1\<close>, set once in the constructor.\<close>

definition tick_size :: real where
  "tick_size = 1 / 10"

text \<open>\<^verbatim>\<open>chr(ord('A') + self.current_letter_index % 26)\<close>.\<close>

definition tpo_letter :: "nat \<Rightarrow> char" where
  "tpo_letter idx = char_of (65 + idx mod 26)"

text \<open>
  The \<^verbatim>\<open>while current_price <= candle.high\<close> loop of \<^verbatim>\<open>_add_price_volume\<close>. Reading
  \<^verbatim>\<open>self.price_time_map[price_key]\<close> creates the key of the defaultdict when it is missing.
\<close>

function distribute_volume ::
  "Candle \<Rightarrow> char \<Rightarrow> (real \<times> real) list \<Rightarrow> (real \<times> string) list \<Rightarrow> real
     \<Rightarrow> (real \<times> real) list \<times> (real \<times> string) list" where
  "distribute_volume candle letter pvm ptm current_price =
     (if current_price \<le> high candle then
        let price_key = round_to_tick current_price tick_size;
            volume_at_price = volume candle / ((high candle - low candle) / tick_size + 1);
            pvm' = dict_set pvm price_key (dd_get 0 pvm price_key + volume_at_price);
            letters = dd_get [] ptm price_key;
            ptm' = dict_set ptm price_key
                     (if letter \<notin> set letters then letters @ [letter] else letters)
        in distribute_volume candle letter pvm' ptm' (current_price + tick_size)
      else (pvm, ptm))"
  by pat_completeness auto
termination
  apply (relation "measure (\<lambda>(candle, letter, pvm, ptm, current_price).
                   nat (\<lfloor>(high candle - current_price) / tick_size\<rfloor> + 1))")
   apply simp
  apply (simp add: tick_size_def)
  apply linarith
  done

declare distribute_volume.simps [simp del]

text \<open>
  \<^verbatim>\<open>_add_price_volume\<close>. The four rounded prices of the source's first statement are
  never used afterwards and are left out. With \<^verbatim>\<open>high == low\<close> the whole volume goes to
  the (unrounded) close and the letter is appended without the membership test.
\<close>

definition add_price_volume :: "TPOAnalyzer \<Rightarrow> Candle \<Rightarrow> TPOAnalyzer" where
  "add_price_volume st candle =
     (let letter = tpo_letter (current_letter_index st);
          price_range = high candle - low candle
      in if price_range = 0 then
           st\<lparr>price_volume_map :=
                 dict_set (price_volume_map st) (close candle)
                   (dd_get 0 (price_volume_map st) (close candle) + volume candle),
              price_time_map :=
                 dict_set (price_time_map st) (close candle)
                   (dd_get [] (price_time_map st) (close candle) @ [letter])\<rparr>
         else
           (case distribute_volume candle letter (price_volume_map st) (price_time_map st)
                   (low candle) of
              (pvm, ptm) \<Rightarrow> st\<lparr>price_volume_map := pvm, price_time_map := ptm\<rparr>))"

text \<open>
  The value-area loop of \<^verbatim>\<open>_calculate_profile\<close>:
  \<^verbatim>\<open>while value_area_volume < target_volume\<close>. The indices are natural numbers, so the
  source's \<^verbatim>\<open>lower_index - 1 >= 0\<close> reads \<open>1 \<le> lower_index\<close>. The result is
  \<open>(upper_price, lower_price, va_volume)\<close> at the exit of the loop, \<open>va_volume\<close> standing
  for the source's local \<^verbatim>\<open>value_area_volume\<close>.
\<close>

function expand_value_area ::
  "(real \<times> real) list \<Rightarrow> real list \<Rightarrow> real \<Rightarrow> nat \<Rightarrow> nat \<Rightarrow> real \<Rightarrow> real \<Rightarrow> real
     \<Rightarrow> real \<times> real \<times> real" where
  "expand_value_area pvm prices target_volume upper_index lower_index
       upper_price lower_price va_volume =
     (if va_volume < target_volume then
        let volume_above =
              (if upper_index + 1 < length prices
               then dd_get 0 pvm (prices ! (upper_index + 1)) else 0);
            volume_below =
              (if 1 \<le> lower_index
               then dd_get 0 pvm (prices ! (lower_index - 1)) else 0)
        in if volume_below \<le> volume_above \<and> upper_index + 1 < length prices then
             expand_value_area pvm prices target_volume (upper_index + 1) lower_index
               (prices ! (upper_index + 1)) lower_price (va_volume + volume_above)
           else if 1 \<le> lower_index then
             expand_value_area pvm prices target_volume upper_index (lower_index - 1)
               upper_price (prices ! (lower_index - 1)) (va_volume + volume_below)
           else (upper_price, lower_price, va_volume)
      else (upper_price, lower_price, va_volume))"
  by pat_completeness auto
termination
  by (relation "measure (\<lambda>(pvm, prices, target_volume, upper_index, lower_index, rest).
                  (length prices - upper_index) + lower_index)") auto

declare expand_value_area.simps [simp del]

text \<open>
  \<^verbatim>\<open>_calculate_profile\<close>. An empty map returns at once and leaves the profile as it was.
  \<^verbatim>\<open>self.current_session_start + ...\<close> raises TypeError while the session start is still
  \<^verbatim>\<open>None\<close> (\<^verbatim>\<open>update\<close> always sets it first). \<^verbatim>\<open>''.join(letters)\<close> of a list of
  one-character strings is the list of the characters itself.
\<close>

definition calculate_profile :: "tpo_config \<Rightarrow> TPOAnalyzer \<Rightarrow> error + TPOAnalyzer" where
  "calculate_profile cfg st =
     (if price_volume_map st = [] then Inr st
      else
        let pvm = price_volume_map st;
            poc_price = fst (py_max_key (hd pvm) (tl pvm));
            poc_volume = dd_get 0 pvm poc_price;
            total = sum_list (map snd pvm);
            target_volume = total * (value_area_percent cfg / 100);
            prices = sort (map fst pvm);
            poc_index = index_of prices poc_price
        in case expand_value_area pvm prices target_volume poc_index poc_index
                  poc_price poc_price poc_volume of
             (upper_price, lower_price, va_volume) \<Rightarrow>
               (case current_session_start st of
                  None \<Rightarrow> Inl TypeError
                | Some s \<Rightarrow>
                    Inr (st\<lparr>current_profile := Some
                          \<lparr>session_start = s,
                           session_end = s + session_duration_hours cfg * 3600 * 1000,
                           poc = poc_price,
                           vah = upper_price,
                           val = lower_price,
                           price_levels = pvm,
                           tpo_letters = price_time_map st,
                           total_volume = total,
                           value_area_volume = va_volume\<rparr>\<rparr>)))"

text \<open>The state after the constructor.\<close>

definition tpo_init :: TPOAnalyzer where
  "tpo_init =
     \<lparr>current_session_start = None, current_profile = None, previous_profile = None,
      price_volume_map = [], price_time_map = [], current_letter_index = 0,
      last_slice_time = None, last_price = None\<rparr>"

text \<open>\<^verbatim>\<open>_start_new_session\<close>; a profile object is always truthy, so the test is on None.\<close>

definition start_new_session :: "TPOAnalyzer \<Rightarrow> int \<Rightarrow> TPOAnalyzer" where
  "start_new_session st s =
     st\<lparr>previous_profile :=
          (case current_profile st of None \<Rightarrow> previous_profile st | Some p \<Rightarrow> Some p),
        current_session_start := Some s,
        price_volume_map := [],
        price_time_map := [],
        current_letter_index := 0,
        last_slice_time := None\<rparr>"

text \<open>\<^verbatim>\<open>_is_new_time_slice\<close>.\<close>

definition is_new_time_slice :: "tpo_config \<Rightarrow> TPOAnalyzer \<Rightarrow> int \<Rightarrow> bool" where
  "is_new_time_slice cfg st ts =
     (case last_slice_time st of
        None \<Rightarrow> True
      | Some t \<Rightarrow> time_slice_minutes cfg \<le> real_of_int (ts - t) / (1000 * 60))"

text \<open>\<^verbatim>\<open>_advance_tpo_letter\<close>.\<close>

definition advance_tpo_letter :: "TPOAnalyzer \<Rightarrow> TPOAnalyzer" where
  "advance_tpo_letter st = st\<lparr>current_letter_index := current_letter_index st + 1\<rparr>"

text \<open>
  \<^verbatim>\<open>_detect_structure_event\<close>: the first matching test wins, in the order VAH, VAL, POC,
  value-area transition.
\<close>

definition detect_structure_event :: "tpo_config \<Rightarrow> TPOAnalyzer \<Rightarrow> real \<Rightarrow> TPOStructureEvent option" where
  "detect_structure_event cfg st current_price =
     (case (current_profile st, last_price st) of
        (Some profile, Some lastp) \<Rightarrow>
          let proximity = proximity_ticks cfg * tick_size in
          if is_near current_price (vah profile) proximity
             \<and> lastp < vah profile \<and> vah profile \<le> current_price
          then Some VAH_BREAKOUT
          else if is_near current_price (vah profile) proximity
             \<and> vah profile < lastp \<and> current_price \<le> vah profile
          then Some VAH_REJECTION
          else if is_near current_price (val profile) proximity
             \<and> val profile < lastp \<and> current_price \<le> val profile
          then Some VAL_BREAK
          else if is_near current_price (val profile) proximity
             \<and> lastp < val profile \<and> val profile \<le> current_price
          then Some VAL_BOUNCE
          else if is_near current_price (poc profile) proximity
             \<and> lastp < poc profile \<and> poc profile \<le> current_price
          then Some POC_RECLAIM
          else if is_near current_price (poc profile) proximity
             \<and> poc profile < lastp \<and> current_price \<le> poc profile
          then Some POC_BREAKDOWN
          else
            let was_inside = is_inside_value_area profile lastp;
                is_inside = is_inside_value_area profile current_price
            in if \<not> was_inside \<and> is_inside then Some INSIDE_VALUE_AREA
               else if was_inside \<and> \<not> is_inside then Some OUTSIDE_VALUE_AREA
               else None
      | _ \<Rightarrow> None)"

text \<open>
  \<^verbatim>\<open>TPOAnalyzer.update\<close>. An exception leaves the object as the statements before it
  made it; the model returns that state together with the error.
\<close>

definition tpo_update ::
  "tpo_config \<Rightarrow> TPOAnalyzer \<Rightarrow> Candle \<Rightarrow> TPOAnalyzer \<times> (error + TPOStructureEvent option)" where
  "tpo_update cfg st candle =
     (case get_session_start (timestamp candle) (session_start_hour cfg) (session_start_minute cfg) of
        Inl e \<Rightarrow> (st, Inl e)
      | Inr s \<Rightarrow>
          let st1 = (if current_session_start st \<noteq> Some s then start_new_session st s else st);
              st2 = (if is_new_time_slice cfg st1 (timestamp candle)
                     then (advance_tpo_letter st1)\<lparr>last_slice_time := Some (timestamp candle)\<rparr>
                     else st1);
              st3 = add_price_volume st2 candle
          in case calculate_profile cfg st3 of
               Inl e \<Rightarrow> (st3, Inl e)
             | Inr st4 \<Rightarrow>
                 (st4\<lparr>last_price := Some (close candle)\<rparr>,
                  Inr (detect_structure_event cfg st4 (close candle))))"

section \<open>VWAPCalculator (vwap_calculator.py)\<close>

record VWAPData =
  vd_timestamp :: int
  vwap :: real
  upper_1std :: real
  lower_1std :: real
  upper_2std :: real
  lower_2std :: real
  cumulative_vp :: real
  vd_cumulative_volume :: real
  slope :: real

text \<open>
  \<^verbatim>\<open>VWAPData.is_pullback_zone\<close> (models.py):
  \<^verbatim>\<open>abs(price - self.vwap) / self.vwap < tolerance\<close>. The division is not guarded.
\<close>

definition is_pullback_zone :: "VWAPData \<Rightarrow> real \<Rightarrow> real \<Rightarrow> error + bool" where
  "is_pullback_zone d price tolerance =
     (if vwap d = 0 then Inl ZeroDivisionError
      else Inr (\<bar>price - vwap d\<bar> / vwap d < tolerance))"

text \<open>\<^verbatim>\<open>deque(maxlen=n).append(x)\<close>: the oldest element is dropped when the deque is full.\<close>

definition deque_append :: "nat \<Rightarrow> 'a list \<Rightarrow> 'a \<Rightarrow> 'a list" where
  "deque_append n xs x = drop (length (xs @ [x]) - n) (xs @ [x])"

record vwap_config =
  session_reset_hour :: nat
  session_reset_minute :: nat
  slope_lookback :: nat
  slope_threshold :: real
  pullback_tolerance :: real
  pullback_confirmation_bars :: nat

record VWAPCalculator =
  vw_current_session_start :: "int option"
  cumulative_pv :: real
  cumulative_volume :: real
  cumulative_pv2 :: real
  current_vwap :: "VWAPData option"
  vwap_history :: "real list"
  consecutive_pullback_bars :: nat
  consecutive_rejection_bars :: nat

definition vwap_init :: VWAPCalculator where
  "vwap_init =
     \<lparr>vw_current_session_start = None, cumulative_pv = 0, cumulative_volume = 0,
      cumulative_pv2 = 0, current_vwap = None, vwap_history = [],
      consecutive_pullback_bars = 0, consecutive_rejection_bars = 0\<rparr>"

text \<open>\<^verbatim>\<open>_reset_session\<close>.\<close>

definition reset_session :: "VWAPCalculator \<Rightarrow> int \<Rightarrow> VWAPCalculator" where
  "reset_session st s =
     st\<lparr>vw_current_session_start := Some s,
        cumulative_pv := 0,
        cumulative_volume := 0,
        cumulative_pv2 := 0,
        vwap_history := [],
        consecutive_pullback_bars := 0,
        consecutive_rejection_bars := 0\<rparr>"

text \<open>\<^verbatim>\<open>_calculate_slope\<close>.\<close>

definition vwap_calculate_slope :: "VWAPCalculator \<Rightarrow> real" where
  "vwap_calculate_slope st =
     (if length (vwap_history st) < 2 then 0 else calculate_slope (vwap_history st))"

text \<open>
  \<^verbatim>\<open>is_pullback\<close>: \<^verbatim>\<open>abs(price - vwap) / vwap * 100 <= tolerance\<close>, the division
  unguarded. The optional tolerance defaults to the configured one.
\<close>

definition is_pullback :: "vwap_config \<Rightarrow> VWAPCalculator \<Rightarrow> real \<Rightarrow> real option \<Rightarrow> error + bool" where
  "is_pullback cfg st price tolerance =
     (case current_vwap st of
        None \<Rightarrow> Inr False
      | Some d \<Rightarrow>
          let tol = (case tolerance of None \<Rightarrow> pullback_tolerance cfg | Some t \<Rightarrow> t)
          in if vwap d = 0 then Inl ZeroDivisionError
             else Inr (\<bar>price - vwap d\<bar> / vwap d * 100 \<le> tol))"

text \<open>
  \<^verbatim>\<open>is_rejection\<close>: both percentages are computed before the conjunction, first the one
  against \<^verbatim>\<open>vwap_history[-2]\<close>, then the one against the current VWAP.
\<close>

definition is_rejection :: "vwap_config \<Rightarrow> VWAPCalculator \<Rightarrow> real \<Rightarrow> error + bool" where
  "is_rejection cfg st price =
     (case current_vwap st of
        None \<Rightarrow> Inr False
      | Some d \<Rightarrow>
          if length (vwap_history st) < 2 then Inr False
          else
            let previous_vwap = vwap_history st ! (length (vwap_history st) - 2)
            in if previous_vwap = 0 then Inl ZeroDivisionError
               else if vwap d = 0 then Inl ZeroDivisionError
               else
                 let was_near =
                       (\<bar>price - previous_vwap\<bar> / previous_vwap * 100 \<le> pullback_tolerance cfg);
                     is_moving_away =
                       (pullback_tolerance cfg < \<bar>price - vwap d\<bar> / vwap d * 100)
                 in Inr (was_near \<and> is_moving_away))"

text \<open>\<^verbatim>\<open>_update_pullback_tracking\<close>.\<close>

definition update_pullback_tracking ::
  "vwap_config \<Rightarrow> VWAPCalculator \<Rightarrow> real \<Rightarrow> error + VWAPCalculator" where
  "update_pullback_tracking cfg st price =
     (case current_vwap st of
        None \<Rightarrow> Inr st
      | Some d \<Rightarrow>
          (case is_pullback cfg st price None of
             Inl e \<Rightarrow> Inl e
           | Inr True \<Rightarrow>
               Inr (st\<lparr>consecutive_pullback_bars := consecutive_pullback_bars st + 1,
                       consecutive_rejection_bars := 0\<rparr>)
           | Inr False \<Rightarrow>
               (case is_rejection cfg st price of
                  Inl e \<Rightarrow> Inl e
                | Inr True \<Rightarrow>
                    Inr (st\<lparr>consecutive_rejection_bars := consecutive_rejection_bars st + 1,
                            consecutive_pullback_bars := 0\<rparr>)
                | Inr False \<Rightarrow>
                    Inr (st\<lparr>consecutive_pullback_bars := 0,
                            consecutive_rejection_bars := 0\<rparr>))))"

text \<open>\<^verbatim>\<open>typical_price = (candle.high + candle.low + candle.close) / 3\<close>.\<close>

definition typical_price :: "Candle \<Rightarrow> real" where
  "typical_price candle = (high candle + low candle + close candle) / 3"

text \<open>
  \<^verbatim>\<open>VWAPCalculator.update\<close>. The slope is computed from the history before the new
  VWAP is appended. \<^verbatim>\<open>max(0, variance) ** 0.5\<close> is the square root. An exception leaves
  the object as the statements before it made it: the sums, the snapshot and the history
  are already updated when the pullback tracking raises.
\<close>

definition vwap_calc_update ::
  "vwap_config \<Rightarrow> VWAPCalculator \<Rightarrow> Candle \<Rightarrow> VWAPCalculator \<times> (error + VWAPData)" where
  "vwap_calc_update cfg st candle =
     (case get_session_start (timestamp candle) (session_reset_hour cfg) (session_reset_minute cfg) of
        Inl e \<Rightarrow> (st, Inl e)
      | Inr s \<Rightarrow>
          let st1 = (if vw_current_session_start st \<noteq> Some s then reset_session st s else st);
              tp = typical_price candle;
              pv = tp * volume candle;
              st2 = st1\<lparr>cumulative_pv := cumulative_pv st1 + pv,
                        cumulative_volume := cumulative_volume st1 + volume candle,
                        cumulative_pv2 := cumulative_pv2 st1 + tp ^ 2 * volume candle\<rparr>;
              vw = (if cumulative_volume st2 = 0 then tp
                    else cumulative_pv st2 / cumulative_volume st2);
              variance = (if cumulative_volume st2 = 0 then 0
                          else cumulative_pv2 st2 / cumulative_volume st2 - vw ^ 2);
              std_dev = sqrt (max 0 variance);
              d = \<lparr>vd_timestamp = timestamp candle,
                   vwap = vw,
                   upper_1std = vw + std_dev,
                   lower_1std = vw - std_dev,
                   upper_2std = vw + 2 * std_dev,
                   lower_2std = vw - 2 * std_dev,
                   cumulative_vp = cumulative_pv st2,
                   vd_cumulative_volume = cumulative_volume st2,
                   slope = vwap_calculate_slope st2\<rparr>;
              st3 = st2\<lparr>current_vwap := Some d,
                        vwap_history := deque_append (slope_lookback cfg) (vwap_history st2) vw\<rparr>
          in case update_pullback_tracking cfg st3 (close candle) of
               Inl e \<Rightarrow> (st3, Inl e)
             | Inr st4 \<Rightarrow> (st4, Inr d))"

text \<open>The calculator after a list of candles, whatever each call returned or raised.\<close>

definition vwap_run :: "vwap_config \<Rightarrow> VWAPCalculator \<Rightarrow> Candle list \<Rightarrow> VWAPCalculator" where
  "vwap_run cfg st candles = foldl (\<lambda>s c. fst (vwap_calc_update cfg s c)) st candles"

section \<open>OrderFlowAnalyzer (orderflow_analyzer.py)\<close>

datatype OrderFlowDirection = BULLISH | BEARISH | NEUTRAL

record Trade =
  tr_timestamp :: int
  tr_price :: real
  quantity :: real
  is_buyer_maker :: bool

text \<open>\<^verbatim>\<open>Trade.is_buy\<close>.\<close>

definition is_buy :: "Trade \<Rightarrow> bool" where
  "is_buy t \<longleftrightarrow> \<not> is_buyer_maker t"

record OrderBookLevel =
  lv_price :: real
  lv_quantity :: real

record OrderBookSnapshot =
  ob_timestamp :: int
  bids :: "OrderBookLevel list"
  asks :: "OrderBookLevel list"

record OrderFlowMetrics =
  m_timestamp :: int
  delta :: real
  m_cumulative_delta :: real
  delta_trend :: OrderFlowDirection
  buy_volume :: real
  sell_volume :: real
  m_total_volume :: real
  oi :: real
  oi_change :: real
  oi_change_percent :: real
  bid_volume :: real
  ask_volume :: real
  imbalance_ratio :: real
  m_absorption_detected :: bool
  m_absorption_price :: "real option"
  m_absorption_volume :: real
  m_consecutive_buy_bars :: nat
  m_consecutive_sell_bars :: nat

record of_config =
  delta_threshold :: real
  consecutive_bars_required :: nat
  cvd_trend_lookback :: nat
  oi_significant_change :: real
  imbalance_ratio_threshold :: real
  absorption_volume_multiplier :: real
  absorption_price_tolerance :: real
  absorption_lookback :: nat

record OrderFlowAnalyzer =
  current_delta :: real
  cumulative_delta :: real
  buy_volume_current :: real
  sell_volume_current :: real
  delta_history :: "real list"
  cvd_history :: "real list"
  volume_history :: "real list"
  price_history :: "real list"
  current_oi :: real
  previous_oi :: real
  current_imbalance_ratio :: real
  consecutive_buy_bars :: nat
  consecutive_sell_bars :: nat
  cvd_trend :: OrderFlowDirection
  absorption_detected :: bool
  absorption_price :: "real option"
  absorption_volume :: real

definition of_init :: OrderFlowAnalyzer where
  "of_init =
     \<lparr>current_delta = 0, cumulative_delta = 0, buy_volume_current = 0,
      sell_volume_current = 0, delta_history = [], cvd_history = [], volume_history = [],
      price_history = [], current_oi = 0, previous_oi = 0, current_imbalance_ratio = 0,
      consecutive_buy_bars = 0, consecutive_sell_bars = 0, cvd_trend = NEUTRAL,
      absorption_detected = False, absorption_price = None, absorption_volume = 0\<rparr>"

text \<open>\<^verbatim>\<open>update_from_trades\<close>: the sums start at zero on every call and overwrite.\<close>

definition update_from_trades :: "OrderFlowAnalyzer \<Rightarrow> Trade list \<Rightarrow> OrderFlowAnalyzer" where
  "update_from_trades st trades =
     (let buy_vol = sum_list (map quantity (filter is_buy trades));
          sell_vol = sum_list (map quantity (filter (\<lambda>t. \<not> is_buy t) trades))
      in st\<lparr>buy_volume_current := buy_vol,
            sell_volume_current := sell_vol,
            current_delta := buy_vol - sell_vol\<rparr>)"

text \<open>\<^verbatim>\<open>update_from_orderbook\<close>; a missing snapshot is \<open>None\<close>.\<close>

definition update_from_orderbook ::
  "OrderFlowAnalyzer \<Rightarrow> OrderBookSnapshot option \<Rightarrow> OrderFlowAnalyzer" where
  "update_from_orderbook st orderbook =
     (case orderbook of
        None \<Rightarrow> st
      | Some ob \<Rightarrow>
          if bids ob = [] \<or> asks ob = [] then st
          else
            let bid_vol = sum_list (map lv_quantity (take 5 (bids ob)));
                ask_vol = sum_list (map lv_quantity (take 5 (asks ob)));
                total = bid_vol + ask_vol
            in if 0 < total
               then st\<lparr>current_imbalance_ratio := \<bar>ask_vol - bid_vol\<bar> / total\<rparr>
               else st\<lparr>current_imbalance_ratio := 0\<rparr>)"

text \<open>\<^verbatim>\<open>update_oi\<close>.\<close>

definition update_oi :: "OrderFlowAnalyzer \<Rightarrow> real \<Rightarrow> OrderFlowAnalyzer" where
  "update_oi st new_oi = st\<lparr>previous_oi := current_oi st, current_oi := new_oi\<rparr>"

text \<open>\<^verbatim>\<open>is_delta_bullish\<close>, \<^verbatim>\<open>is_delta_bearish\<close>.\<close>

definition is_delta_bullish :: "of_config \<Rightarrow> OrderFlowAnalyzer \<Rightarrow> bool" where
  "is_delta_bullish cfg st \<longleftrightarrow>
     delta_history st \<noteq> [] \<and> delta_threshold cfg < last (delta_history st)"

definition is_delta_bearish :: "of_config \<Rightarrow> OrderFlowAnalyzer \<Rightarrow> bool" where
  "is_delta_bearish cfg st \<longleftrightarrow>
     delta_history st \<noteq> [] \<and> last (delta_history st) < - delta_threshold cfg"

text \<open>
  \<^verbatim>\<open>_update_trend\<close>. \<^verbatim>\<open>list(h)[-n:]\<close> is the last \<open>n\<close> elements, and the whole list
  for \<open>n = 0\<close>.
\<close>

definition update_trend :: "of_config \<Rightarrow> OrderFlowAnalyzer \<Rightarrow> OrderFlowAnalyzer" where
  "update_trend cfg st =
     (if length (cvd_history st) < cvd_trend_lookback cfg then st\<lparr>cvd_trend := NEUTRAL\<rparr>
      else
        let recent_cvd =
              (if cvd_trend_lookback cfg = 0 then cvd_history st
               else drop (length (cvd_history st) - cvd_trend_lookback cfg) (cvd_history st));
            sl = calculate_slope recent_cvd
        in if 0 < sl then st\<lparr>cvd_trend := BULLISH\<rparr>
           else if sl < 0 then st\<lparr>cvd_trend := BEARISH\<rparr>
           else st\<lparr>cvd_trend := NEUTRAL\<rparr>)"

text \<open>\<^verbatim>\<open>_update_consecutive_bars\<close>.\<close>

definition update_consecutive_bars :: "of_config \<Rightarrow> OrderFlowAnalyzer \<Rightarrow> OrderFlowAnalyzer" where
  "update_consecutive_bars cfg st =
     (if is_delta_bullish cfg st
      then st\<lparr>consecutive_buy_bars := consecutive_buy_bars st + 1, consecutive_sell_bars := 0\<rparr>
      else if is_delta_bearish cfg st
      then st\<lparr>consecutive_sell_bars := consecutive_sell_bars st + 1, consecutive_buy_bars := 0\<rparr>
      else st\<lparr>consecutive_buy_bars := 0, consecutive_sell_bars := 0\<rparr>)"

text \<open>
  \<^verbatim>\<open>_check_absorption\<close>. \<^verbatim>\<open>sum(h) / len(h)\<close> raises on an empty window (possible only
  with a lookback of 0), and the percent change divides by \<^verbatim>\<open>price_history[-2]\<close> without
  a guard. A raise leaves \<^verbatim>\<open>absorption_detected\<close> as it was.
\<close>

definition check_absorption ::
  "of_config \<Rightarrow> OrderFlowAnalyzer \<Rightarrow> real \<Rightarrow> OrderFlowAnalyzer \<times> (error + unit)" where
  "check_absorption cfg st price =
     (if length (volume_history st) < absorption_lookback cfg
      then (st\<lparr>absorption_detected := False\<rparr>, Inr ())
      else if volume_history st = [] then (st, Inl ZeroDivisionError)
      else
        let avg_volume = sum_list (volume_history st) / real (length (volume_history st));
            recent_volume = last (volume_history st)
        in if recent_volume < avg_volume * absorption_volume_multiplier cfg
           then (st\<lparr>absorption_detected := False\<rparr>, Inr ())
           else if length (price_history st) < 2
           then (st\<lparr>absorption_detected := False\<rparr>, Inr ())
           else
             let previous_price = price_history st ! (length (price_history st) - 2)
             in if previous_price = 0 then (st, Inl ZeroDivisionError)
                else
                  let price_change_pct = \<bar>(price - previous_price) / previous_price\<bar> * 100
                  in if price_change_pct \<le> absorption_price_tolerance cfg
                     then (st\<lparr>absorption_detected := True,
                              absorption_price := Some price,
                              absorption_volume := recent_volume\<rparr>, Inr ())
                     else (st\<lparr>absorption_detected := False\<rparr>, Inr ()))"

text \<open>
  \<^verbatim>\<open>finalize_bar\<close>. When the absorption check raises, the per-bar accumulators are not
  reset: the exception leaves the method before those statements.
\<close>

definition finalize_bar ::
  "of_config \<Rightarrow> OrderFlowAnalyzer \<Rightarrow> real \<Rightarrow> OrderFlowAnalyzer \<times> (error + unit)" where
  "finalize_bar cfg st price =
     (let st1 = st\<lparr>cumulative_delta := cumulative_delta st + current_delta st\<rparr>;
          st2 = st1\<lparr>delta_history := deque_append 100 (delta_history st1) (current_delta st1),
                    cvd_history := deque_append 100 (cvd_history st1) (cumulative_delta st1),
                    volume_history :=
                      deque_append (absorption_lookback cfg) (volume_history st1)
                        (buy_volume_current st1 + sell_volume_current st1),
                    price_history :=
                      deque_append (absorption_lookback cfg) (price_history st1) price\<rparr>;
          st3 = update_consecutive_bars cfg (update_trend cfg st2)
      in case check_absorption cfg st3 price of
           (st4, Inl e) \<Rightarrow> (st4, Inl e)
         | (st4, Inr u) \<Rightarrow>
             (st4\<lparr>current_delta := 0, buy_volume_current := 0, sell_volume_current := 0\<rparr>,
              Inr ()))"

text \<open>\<^verbatim>\<open>get_metrics\<close>; \<open>bid_volume\<close> and \<open>ask_volume\<close> keep the dataclass default.\<close>

definition get_metrics :: "OrderFlowAnalyzer \<Rightarrow> int \<Rightarrow> OrderFlowMetrics" where
  "get_metrics st ts =
     \<lparr>m_timestamp = ts,
      delta = (if delta_history st \<noteq> [] then last (delta_history st) else 0),
      m_cumulative_delta = cumulative_delta st,
      delta_trend = cvd_trend st,
      buy_volume = buy_volume_current st,
      sell_volume = sell_volume_current st,
      m_total_volume = buy_volume_current st + sell_volume_current st,
      oi = current_oi st,
      oi_change = current_oi st - previous_oi st,
      oi_change_percent =
        (if 0 < previous_oi st
         then ((current_oi st - previous_oi st) / previous_oi st) * 100 else 0),
      bid_volume = 0,
      ask_volume = 0,
      imbalance_ratio = current_imbalance_ratio st,
      m_absorption_detected = absorption_detected st,
      m_absorption_price = absorption_price st,
      m_absorption_volume = absorption_volume st,
      m_consecutive_buy_bars = consecutive_buy_bars st,
      m_consecutive_sell_bars = consecutive_sell_bars st\<rparr>"

text \<open>\<^verbatim>\<open>reset\<close>.\<close>

definition of_reset :: "OrderFlowAnalyzer \<Rightarrow> OrderFlowAnalyzer" where
  "of_reset st =
     st\<lparr>cumulative_delta := 0, cvd_history := [], delta_history := [],
        volume_history := [], price_history := [],
        consecutive_buy_bars := 0, consecutive_sell_bars := 0,
        absorption_detected := False\<rparr>"

text \<open>
  The mutating calls a client can make, and the analyzer after a list of them. A raising
  call leaves the state it had reached.
\<close>

datatype of_call =
    UpdateFromTrades "Trade list"
  | UpdateFromOrderbook "OrderBookSnapshot option"
  | UpdateOI real
  | FinalizeBar real
  | Reset

fun of_step :: "of_config \<Rightarrow> OrderFlowAnalyzer \<Rightarrow> of_call \<Rightarrow> OrderFlowAnalyzer" where
  "of_step cfg st (UpdateFromTrades trades) = update_from_trades st trades"
| "of_step cfg st (UpdateFromOrderbook ob) = update_from_orderbook st ob"
| "of_step cfg st (UpdateOI v) = update_oi st v"
| "of_step cfg st (FinalizeBar price) = fst (finalize_bar cfg st price)"
| "of_step cfg st Reset = of_reset st"

definition of_run :: "of_config \<Rightarrow> OrderFlowAnalyzer \<Rightarrow> of_call list \<Rightarrow> OrderFlowAnalyzer" where
  "of_run cfg st calls = foldl (of_step cfg) st calls"

text \<open>
  The per-bar deltas handed to \<^verbatim>\<open>finalize_bar\<close> since the last \<^verbatim>\<open>reset\<close>: the value of
  \<^verbatim>\<open>current_delta\<close> at each finalize call, oldest first. \<open>acc\<close> holds the deltas
  collected before the calls.
\<close>

fun bar_deltas ::
  "of_config \<Rightarrow> OrderFlowAnalyzer \<Rightarrow> real list \<Rightarrow> of_call list \<Rightarrow> real list" where
  "bar_deltas cfg st acc [] = acc"
| "bar_deltas cfg st acc (FinalizeBar price # calls) =
     bar_deltas cfg (of_step cfg st (FinalizeBar price)) (acc @ [current_delta st]) calls"
| "bar_deltas cfg st acc (Reset # calls) = bar_deltas cfg (of_step cfg st Reset) [] calls"
| "bar_deltas cfg st acc (call # calls) = bar_deltas cfg (of_step cfg st call) acc calls"

section \<open>SignalEngine (signal_engine.py)\<close>

datatype SignalType = LONG_ENTRY | SHORT_ENTRY | LONG_FAILURE | SHORT_FAILURE

record SignalConditions =
  tpo_event :: "TPOStructureEvent option"
  tpo_proximity :: real
  vwap_aligned :: bool
  vwap_distance :: real
  vwap_slope :: real
  delta_confirmed :: bool
  cvd_confirmed :: bool
  oi_confirmed :: bool
  aggressive_flow :: bool
  absorption :: bool
  delta_flip :: bool
  cvd_divergence :: bool

text \<open>\<^verbatim>\<open>SignalConditions()\<close> with the defaults of the dataclass.\<close>

definition default_conditions :: SignalConditions where
  "default_conditions =
     \<lparr>tpo_event = None, tpo_proximity = 0, vwap_aligned = False, vwap_distance = 0,
      vwap_slope = 0, delta_confirmed = False, cvd_confirmed = False, oi_confirmed = False,
      aggressive_flow = False, absorption = False, delta_flip = False,
      cvd_divergence = False\<rparr>"

record SignalEvent =
  se_timestamp :: int
  symbol :: string
  signal_type :: SignalType
  price :: real
  conditions :: SignalConditions
  confidence :: real
  tpo_data :: "TPOProfile option"
  vwap_data :: "VWAPData option"
  orderflow_data :: "OrderFlowMetrics option"
  alerted :: bool
  alert_timestamp :: "int option"

record long_options =
  vwap_pullback_tolerance :: real
  long_require_all_orderflow :: bool
  long_min_confidence :: real

record short_options =
  vwap_rejection_tolerance :: real
  short_require_all_orderflow :: bool
  short_min_confidence :: real

record signal_config =
  long_config :: long_options
  short_config :: short_options
  failure_min_confidence :: real
  cooldown_seconds :: real

record SignalEngine =
  engine_symbol :: string
  last_long_signal_time :: "int option"
  last_short_signal_time :: "int option"
  last_failure_signal_time :: "int option"
  recent_high :: "real option"
  recent_low :: "real option"

definition engine_init :: "string \<Rightarrow> SignalEngine" where
  "engine_init name =
     \<lparr>engine_symbol = name, last_long_signal_time = None, last_short_signal_time = None,
      last_failure_signal_time = None, recent_high = None, recent_low = None\<rparr>"

text \<open>\<^verbatim>\<open>_is_in_cooldown\<close>: \<^verbatim>\<open>(current_time - last_signal_time) / 1000 < cooldown_seconds\<close>.\<close>

definition is_in_cooldown :: "signal_config \<Rightarrow> int option \<Rightarrow> int \<Rightarrow> bool" where
  "is_in_cooldown cfg last_signal_time current_time =
     (case last_signal_time of
        None \<Rightarrow> False
      | Some t \<Rightarrow> real_of_int (current_time - t) / 1000 < cooldown_seconds cfg)"

text \<open>\<^verbatim>\<open>_update_price_tracking\<close>.\<close>

definition update_price_tracking :: "SignalEngine \<Rightarrow> real \<Rightarrow> SignalEngine" where
  "update_price_tracking st p =
     (let st1 = (case recent_high st of
                   None \<Rightarrow> st\<lparr>recent_high := Some p\<rparr>
                 | Some h \<Rightarrow> if h < p then st\<lparr>recent_high := Some p\<rparr> else st)
      in case recent_low st1 of
           None \<Rightarrow> st1\<lparr>recent_low := Some p\<rparr>
         | Some l \<Rightarrow> if p < l then st1\<lparr>recent_low := Some p\<rparr> else st1)"

text \<open>
  \<^verbatim>\<open>_check_long_entry\<close>. Each \<^verbatim>\<open>confidence += w\<close> under an \<^verbatim>\<open>if\<close> is a summand
  \<open>(if .. then w else 0)\<close>, each field of \<^verbatim>\<open>conditions\<close> gets the value its \<^verbatim>\<open>if\<close>
  assigns. The only statement that can raise is the call of \<^verbatim>\<open>is_pullback_zone\<close>; it
  comes before any assignment to the engine. The later division for
  \<^verbatim>\<open>vwap_distance\<close> has the same divisor, which is non-zero once that call has returned.
\<close>

definition check_long_entry ::
  "signal_config \<Rightarrow> SignalEngine \<Rightarrow> int \<Rightarrow> real \<Rightarrow> TPOProfile option
     \<Rightarrow> TPOStructureEvent option \<Rightarrow> VWAPData option \<Rightarrow> OrderFlowMetrics option
     \<Rightarrow> SignalEngine \<times> (error + SignalEvent option)" where
  "check_long_entry cfg st current_time current_price tpo tpo_ev vw ofd =
     (if is_in_cooldown cfg (last_long_signal_time st) current_time then (st, Inr None)
      else
        case (tpo, vw, ofd) of
          (Some tpo_d, Some vwap_d, Some of_d) \<Rightarrow>
            if \<not> (tpo_ev = Some VAL_BOUNCE \<or> tpo_ev = Some POC_RECLAIM
                   \<or> tpo_ev = Some VAH_BREAKOUT)
            then (st, Inr None)
            else
              (case is_pullback_zone vwap_d current_price
                      (vwap_pullback_tolerance (long_config cfg)) of
                 Inl e \<Rightarrow> (st, Inl e)
               | Inr pullback \<Rightarrow>
                   let above = (vwap vwap_d \<le> current_price);
                       vwap_valid = (above \<or> pullback);
                       delta_pos = (0 < delta of_d);
                       cvd_up = (delta_trend of_d = BULLISH);
                       oi_up = (0 < oi_change_percent of_d);
                       buying = (2 \<le> m_consecutive_buy_bars of_d);
                       of_conditions_met =
                         (if delta_pos then 1 else 0) + (if cvd_up then 1 else 0)
                         + (if oi_up then 1 else 0) + (if buying then (1::nat) else 0);
                       of_score =
                         (if delta_pos then 10 / 100 else 0) + (if cvd_up then 10 / 100 else 0)
                         + (if oi_up then 5 / 100 else 0) + (if buying then 10 / 100 else (0::real));
                       conf =
                         25 / 100 + (if above then 15 / 100 else 0)
                         + (if pullback then 25 / 100 else 0)
                         + (if 0 < slope vwap_d then 10 / 100 else 0) + of_score;
                       conds =
                         \<lparr>tpo_event = tpo_ev,
                          tpo_proximity = distance_to_poc tpo_d current_price,
                          vwap_aligned = vwap_valid,
                          vwap_distance = \<bar>current_price - vwap vwap_d\<bar> / vwap vwap_d * 100,
                          vwap_slope = (if 0 < slope vwap_d then slope vwap_d else 0),
                          delta_confirmed = delta_pos,
                          cvd_confirmed = cvd_up,
                          oi_confirmed = oi_up,
                          aggressive_flow = buying,
                          absorption = False, delta_flip = False, cvd_divergence = False\<rparr>
                   in if \<not> vwap_valid then (st, Inr None)
                      else if (if long_require_all_orderflow (long_config cfg)
                               then of_conditions_met < 4 else of_conditions_met < 3)
                      then (st, Inr None)
                      else if conf < long_min_confidence (long_config cfg) then (st, Inr None)
                      else
                        (st\<lparr>last_long_signal_time := Some current_time\<rparr>,
                         Inr (Some
                           \<lparr>se_timestamp = current_time,
                            symbol = engine_symbol st,
                            signal_type = LONG_ENTRY,
                            price = current_price,
                            conditions = conds,
                            confidence = min conf 1,
                            tpo_data = tpo, vwap_data = vw, orderflow_data = ofd,
                            alerted = False, alert_timestamp = None\<rparr>)))
        | _ \<Rightarrow> (st, Inr None))"

text \<open>
  \<^verbatim>\<open>_check_short_entry\<close>: the mirror image; the pullback zone counts only together with a
  negative delta.
\<close>

definition check_short_entry ::
  "signal_config \<Rightarrow> SignalEngine \<Rightarrow> int \<Rightarrow> real \<Rightarrow> TPOProfile option
     \<Rightarrow> TPOStructureEvent option \<Rightarrow> VWAPData option \<Rightarrow> OrderFlowMetrics option
     \<Rightarrow> SignalEngine \<times> (error + SignalEvent option)" where
  "check_short_entry cfg st current_time current_price tpo tpo_ev vw ofd =
     (if is_in_cooldown cfg (last_short_signal_time st) current_time then (st, Inr None)
      else
        case (tpo, vw, ofd) of
          (Some tpo_d, Some vwap_d, Some of_d) \<Rightarrow>
            if \<not> (tpo_ev = Some VAH_REJECTION \<or> tpo_ev = Some POC_BREAKDOWN
                   \<or> tpo_ev = Some VAL_BREAK)
            then (st, Inr None)
            else
              (case is_pullback_zone vwap_d current_price
                      (vwap_rejection_tolerance (short_config cfg)) of
                 Inl e \<Rightarrow> (st, Inl e)
               | Inr zone \<Rightarrow>
                   let below = (current_price \<le> vwap vwap_d);
                       rejected = (zone \<and> delta of_d < 0);
                       vwap_valid = (below \<or> rejected);
                       delta_neg = (delta of_d < 0);
                       cvd_down = (delta_trend of_d = BEARISH);
                       oi_up = (0 < oi_change_percent of_d);
                       selling = (2 \<le> m_consecutive_sell_bars of_d);
                       of_conditions_met =
                         (if delta_neg then 1 else 0) + (if cvd_down then 1 else 0)
                         + (if oi_up then 1 else 0) + (if selling then (1::nat) else 0);
                       of_score =
                         (if delta_neg then 10 / 100 else 0) + (if cvd_down then 10 / 100 else 0)
                         + (if oi_up then 5 / 100 else 0) + (if selling then 10 / 100 else (0::real));
                       conf =
                         25 / 100 + (if below then 15 / 100 else 0)
                         + (if rejected then 25 / 100 else 0)
                         + (if slope vwap_d < 0 then 10 / 100 else 0) + of_score;
                       conds =
                         \<lparr>tpo_event = tpo_ev,
                          tpo_proximity = distance_to_poc tpo_d current_price,
                          vwap_aligned = vwap_valid,
                          vwap_distance = \<bar>current_price - vwap vwap_d\<bar> / vwap vwap_d * 100,
                          vwap_slope = (if slope vwap_d < 0 then slope vwap_d else 0),
                          delta_confirmed = delta_neg,
                          cvd_confirmed = cvd_down,
                          oi_confirmed = oi_up,
                          aggressive_flow = selling,
                          absorption = False, delta_flip = False, cvd_divergence = False\<rparr>
                   in if \<not> vwap_valid then (st, Inr None)
                      else if (if short_require_all_orderflow (short_config cfg)
                               then of_conditions_met < 4 else of_conditions_met < 3)
                      then (st, Inr None)
                      else if conf < short_min_confidence (short_config cfg) then (st, Inr None)
                      else
                        (st\<lparr>last_short_signal_time := Some current_time\<rparr>,
                         Inr (Some
                           \<lparr>se_timestamp = current_time,
                            symbol = engine_symbol st,
                            signal_type = SHORT_ENTRY,
                            price = current_price,
                            conditions = conds,
                            confidence = min conf 1,
                            tpo_data = tpo, vwap_data = vw, orderflow_data = ofd,
                            alerted = False, alert_timestamp = None\<rparr>)))
        | _ \<Rightarrow> (st, Inr None))"

text \<open>
  \<^verbatim>\<open>_check_upside_failure\<close>: the returned score together with the conditions object as
  the method leaves it (it is mutated even when the score is rejected at the end).
  \<^verbatim>\<open>if self.recent_high and ...\<close> is false for \<^verbatim>\<open>None\<close> and for \<open>0.0\<close>.
\<close>

definition check_upside_failure ::
  "signal_config \<Rightarrow> SignalEngine \<Rightarrow> real \<Rightarrow> TPOProfile \<Rightarrow> VWAPData \<Rightarrow> OrderFlowMetrics
     \<Rightarrow> SignalConditions \<Rightarrow> real \<times> SignalConditions" where
  "check_upside_failure cfg st p tpo_d vwap_d of_d conds =
     (if \<not> (is_near p (vah tpo_d) (2 / 10) \<or> is_near p (upper_1std vwap_d) (2 / 10))
      then (0, conds)
      else if \<not> (case recent_high st of
                     None \<Rightarrow> False
                   | Some h \<Rightarrow> h \<noteq> 0 \<and> h * (998 / 1000) \<le> p)
      then (0, conds)
      else
        let flip = (delta of_d < 0);
            diverge = (delta_trend of_d \<noteq> BULLISH);
            absorb = m_absorption_detected of_d;
            conf = 2 / 10 + (if flip then 3 / 10 else 0) + (if diverge then 2 / 10 else 0)
                   + (if absorb then 3 / 10 else (0::real));
            conds' = conds\<lparr>tpo_event := Some VAH_REJECTION,
                           delta_flip := (flip \<or> delta_flip conds),
                           cvd_divergence := (diverge \<or> cvd_divergence conds),
                           absorption := (absorb \<or> absorption conds)\<rparr>
        in if conf < failure_min_confidence cfg then (0, conds') else (conf, conds'))"

text \<open>\<^verbatim>\<open>_check_downside_failure\<close>.\<close>

definition check_downside_failure ::
  "signal_config \<Rightarrow> SignalEngine \<Rightarrow> real \<Rightarrow> TPOProfile \<Rightarrow> VWAPData \<Rightarrow> OrderFlowMetrics
     \<Rightarrow> SignalConditions \<Rightarrow> real \<times> SignalConditions" where
  "check_downside_failure cfg st p tpo_d vwap_d of_d conds =
     (if \<not> (is_near p (val tpo_d) (2 / 10) \<or> is_near p (lower_1std vwap_d) (2 / 10))
      then (0, conds)
      else if \<not> (case recent_low st of
                     None \<Rightarrow> False
                   | Some l \<Rightarrow> l \<noteq> 0 \<and> p \<le> l * (1002 / 1000))
      then (0, conds)
      else
        let flip = (0 < delta of_d);
            diverge = (delta_trend of_d \<noteq> BEARISH);
            absorb = m_absorption_detected of_d;
            conf = 2 / 10 + (if flip then 3 / 10 else 0) + (if diverge then 2 / 10 else 0)
                   + (if absorb then 3 / 10 else (0::real));
            conds' = conds\<lparr>tpo_event := Some VAL_BOUNCE,
                           delta_flip := (flip \<or> delta_flip conds),
                           cvd_divergence := (diverge \<or> cvd_divergence conds),
                           absorption := (absorb \<or> absorption conds)\<rparr>
        in if conf < failure_min_confidence cfg then (0, conds') else (conf, conds'))"

text \<open>
  \<^verbatim>\<open>_check_failure_patterns\<close>. \<^verbatim>\<open>if upside_failure:\<close> tests the returned float, true
  when it is not \<open>0.0\<close>. The downside check receives the conditions object the upside
  check has already written to. Nothing here can raise.
\<close>

definition check_failure_patterns ::
  "signal_config \<Rightarrow> SignalEngine \<Rightarrow> int \<Rightarrow> real \<Rightarrow> TPOProfile option
     \<Rightarrow> VWAPData option \<Rightarrow> OrderFlowMetrics option
     \<Rightarrow> SignalEngine \<times> SignalEvent option" where
  "check_failure_patterns cfg st current_time current_price tpo vw ofd =
     (if is_in_cooldown cfg (last_failure_signal_time st) current_time then (st, None)
      else
        case (tpo, vw, ofd) of
          (Some tpo_d, Some vwap_d, Some of_d) \<Rightarrow>
            (case check_upside_failure cfg st current_price tpo_d vwap_d of_d
                    default_conditions of
               (upside_failure, conds1) \<Rightarrow>
                 if upside_failure \<noteq> 0 then
                   (st\<lparr>last_failure_signal_time := Some current_time\<rparr>,
                    Some \<lparr>se_timestamp = current_time,
                          symbol = engine_symbol st,
                          signal_type = SHORT_FAILURE,
                          price = current_price,
                          conditions = conds1,
                          confidence = min upside_failure 1,
                          tpo_data = tpo, vwap_data = vw, orderflow_data = ofd,
                          alerted = False, alert_timestamp = None\<rparr>)
                 else
                   (case check_downside_failure cfg st current_price tpo_d vwap_d of_d
                           conds1 of
                      (downside_failure, conds2) \<Rightarrow>
                        if downside_failure \<noteq> 0 then
                          (st\<lparr>last_failure_signal_time := Some current_time\<rparr>,
                           Some \<lparr>se_timestamp = current_time,
                                 symbol = engine_symbol st,
                                 signal_type = LONG_FAILURE,
                                 price = current_price,
                                 conditions = conds2,
                                 confidence = min downside_failure 1,
                                 tpo_data = tpo, vwap_data = vw, orderflow_data = ofd,
                                 alerted = False, alert_timestamp = None\<rparr>)
                        else (st, None)))
        | _ \<Rightarrow> (st, None))"

text \<open>
  \<^verbatim>\<open>check_signals\<close>: price tracking, then failure patterns, long entry, short entry; the
  first signal found is returned. A raise inside the long or short check ends the call
  with the engine as it is then (the price tracking done, no timer touched).
\<close>

definition check_signals ::
  "signal_config \<Rightarrow> SignalEngine \<Rightarrow> int \<Rightarrow> real \<Rightarrow> TPOProfile option
     \<Rightarrow> TPOStructureEvent option \<Rightarrow> VWAPData option \<Rightarrow> OrderFlowMetrics option
     \<Rightarrow> SignalEngine \<times> (error + SignalEvent option)" where
  "check_signals cfg st current_time current_price tpo tpo_ev vw ofd =
     (let st1 = update_price_tracking st current_price in
      case check_failure_patterns cfg st1 current_time current_price tpo vw ofd of
        (st2, Some failure_signal) \<Rightarrow> (st2, Inr (Some failure_signal))
      | (st2, None) \<Rightarrow>
          (case check_long_entry cfg st2 current_time current_price tpo tpo_ev vw ofd of
             (st3, Inl e) \<Rightarrow> (st3, Inl e)
           | (st3, Inr (Some long_signal)) \<Rightarrow> (st3, Inr (Some long_signal))
           | (st3, Inr None) \<Rightarrow>
               check_short_entry cfg st3 current_time current_price tpo tpo_ev vw ofd))"

text \<open>
  The arguments of one \<^verbatim>\<open>check_signals\<close> call, and the signals that a list of calls on
  one engine returns, in the order of the calls. A call that raises or returns
  \<^verbatim>\<open>None\<close> contributes no signal; the engine goes on from the state the call left.
\<close>

record signal_call =
  call_time :: int
  call_price :: real
  call_tpo :: "TPOProfile option"
  call_tpo_event :: "TPOStructureEvent option"
  call_vwap :: "VWAPData option"
  call_orderflow :: "OrderFlowMetrics option"

definition check_call ::
  "signal_config \<Rightarrow> SignalEngine \<Rightarrow> signal_call \<Rightarrow> SignalEngine \<times> (error + SignalEvent option)" where
  "check_call cfg st c =
     check_signals cfg st (call_time c) (call_price c) (call_tpo c) (call_tpo_event c)
       (call_vwap c) (call_orderflow c)"

fun emitted_signals :: "signal_config \<Rightarrow> SignalEngine \<Rightarrow> signal_call list \<Rightarrow> SignalEvent list" where
  "emitted_signals cfg st [] = []"
| "emitted_signals cfg st (c # cs) =
     (case check_call cfg st c of
        (st', Inr (Some ev)) \<Rightarrow> ev # emitted_signals cfg st' cs
      | (st', _) \<Rightarrow> emitted_signals cfg st' cs)"

text \<open>The cooldown timer that gates a signal type.\<close>

fun timer_of :: "SignalType \<Rightarrow> SignalEngine \<Rightarrow> int option" where
  "timer_of LONG_ENTRY st = last_long_signal_time st"
| "timer_of SHORT_ENTRY st = last_short_signal_time st"
| "timer_of LONG_FAILURE st = last_failure_signal_time st"
| "timer_of SHORT_FAILURE st = last_failure_signal_time st"

section \<open>Example inputs\<close>

text \<open>Concrete inputs on which the theorems below are instantiated.\<close>

definition ex_signal_config :: signal_config where
  "ex_signal_config =
     \<lparr>long_config = \<lparr>vwap_pullback_tolerance = 2 / 1000, long_require_all_orderflow = False,
                      long_min_confidence = 6 / 10\<rparr>,
      short_config = \<lparr>vwap_rejection_tolerance = 2 / 1000, short_require_all_orderflow = False,
                       short_min_confidence = 6 / 10\<rparr>,
      failure_min_confidence = 6 / 10,
      cooldown_seconds = 300\<rparr>"

definition ex_profile :: TPOProfile where
  "ex_profile =
     \<lparr>session_start = 0, session_end = 86400000, poc = 95, vah = 100, val = 90,
      price_levels = [], tpo_letters = [], total_volume = 0, value_area_volume = 0\<rparr>"

definition ex_vwap_data :: VWAPData where
  "ex_vwap_data =
     \<lparr>vd_timestamp = 0, vwap = 100, upper_1std = 101, lower_1std = 99, upper_2std = 102,
      lower_2std = 98, cumulative_vp = 100, vd_cumulative_volume = 1, slope = 0\<rparr>"

definition ex_metrics :: OrderFlowMetrics where
  "ex_metrics =
     \<lparr>m_timestamp = 0, delta = - 1, m_cumulative_delta = - 1, delta_trend = NEUTRAL,
      buy_volume = 0, sell_volume = 0, m_total_volume = 0, oi = 0, oi_change = 0,
      oi_change_percent = 0, bid_volume = 0, ask_volume = 0, imbalance_ratio = 0,
      m_absorption_detected = False, m_absorption_price = None, m_absorption_volume = 0,
      m_consecutive_buy_bars = 0, m_consecutive_sell_bars = 0\<rparr>"

definition ex_call :: "int \<Rightarrow> signal_call" where
  "ex_call t =
     \<lparr>call_time = t, call_price = 100, call_tpo = Some ex_profile, call_tpo_event = None,
      call_vwap = Some ex_vwap_data, call_orderflow = Some ex_metrics\<rparr>"

definition ex_vwap_rising :: VWAPData where
  "ex_vwap_rising = ex_vwap_data\<lparr>slope := 1\<rparr>"

definition ex_metrics_bullish :: OrderFlowMetrics where
  "ex_metrics_bullish =
     ex_metrics\<lparr>delta := 5, delta_trend := BULLISH, oi_change_percent := 1,
                m_consecutive_buy_bars := 3\<rparr>"

definition ex_vwap_config :: vwap_config where
  "ex_vwap_config =
     \<lparr>session_reset_hour = 0, session_reset_minute = 0, slope_lookback = 5,
      slope_threshold = 1 / 10000, pullback_tolerance = 2 / 10,
      pullback_confirmation_bars = 2\<rparr>"

definition ex_candle_1 :: Candle where
  "ex_candle_1 = \<lparr>timestamp = 0, open_px = 99, high = 102, low = 98, close = 100, volume = 2\<rparr>"

definition ex_candle_2 :: Candle where
  "ex_candle_2 =
     \<lparr>timestamp = 60000, open_px = 100, high = 104, low = 100, close = 102, volume = 2\<rparr>"

definition ex_of_config :: of_config where
  "ex_of_config =
     \<lparr>delta_threshold = 1, consecutive_bars_required = 2, cvd_trend_lookback = 5,
      oi_significant_change = 1, imbalance_ratio_threshold = 6 / 10,
      absorption_volume_multiplier = 3 / 2, absorption_price_tolerance = 1 / 10,
      absorption_lookback = 2\<rparr>"

definition ex_trade :: "real \<Rightarrow> bool \<Rightarrow> Trade" where
  "ex_trade q maker = \<lparr>tr_timestamp = 0, tr_price = 100, quantity = q, is_buyer_maker = maker\<rparr>"

section \<open>Properties of the TPO profile\<close>

lemma py_max_key_split:
  "\<exists>pre post. b # xs = pre @ py_max_key b xs # post
      \<and> (\<forall>x \<in> set pre. snd x < snd (py_max_key b xs))
      \<and> (\<forall>x \<in> set post. snd x \<le> snd (py_max_key b xs))"
proof (induction xs arbitrary: b)
  case Nil
  have "[b] = [] @ py_max_key b [] # []" by simp
  then show ?case by (metis empty_iff empty_set)
next
  case (Cons x xs)
  define b' where "b' = (if snd b < snd x then x else b)"
  define r where "r = py_max_key b' xs"
  from Cons.IH[of b'] obtain pre post where d: "b' # xs = pre @ r # post"
    and lt: "\<forall>y \<in> set pre. snd y < snd r" and le: "\<forall>y \<in> set post. snd y \<le> snd r"
    unfolding r_def by blast
  have r: "py_max_key b (x # xs) = r" by (simp add: r_def b'_def)
  have b'le: "snd b' \<le> snd r"
  proof (cases pre)
    case Nil
    then show ?thesis using d by simp
  next
    case (Cons p ps)
    then have "b' \<in> set pre" using d by simp
    then show ?thesis using lt by fastforce
  qed
  show ?case
  proof (cases "snd b < snd x")
    case True
    then have "b' = x" by (simp add: b'_def)
    then have "b # x # xs = (b # pre) @ r # post" using d by simp
    moreover have "\<forall>y \<in> set (b # pre). snd y < snd r"
      using lt b'le True \<open>b' = x\<close> by auto
    ultimately show ?thesis unfolding r using le by blast
  next
    case False
    then have bb: "b' = b" by (simp add: b'_def)
    show ?thesis
    proof (cases pre)
      case Nil
      then have "r = b" "post = xs" using d bb by auto
      then have "b # x # xs = [] @ r # (x # xs)" by simp
      moreover have "\<forall>y \<in> set (x # xs). snd y \<le> snd r"
        using le False \<open>post = xs\<close> \<open>r = b\<close> by auto
      ultimately show ?thesis unfolding r by (metis empty_iff empty_set)
    next
      case (Cons p ps)
      then have "p = b" and xs: "xs = ps @ r # post" using d bb by auto
      then have "snd b < snd r" using lt Cons by auto
      then have "\<forall>y \<in> set (b # x # ps). snd y < snd r" using lt Cons False by auto
      moreover have "b # x # xs = (b # x # ps) @ r # post" using xs by simp
      ultimately show ?thesis unfolding r using le by blast
    qed
  qed
qed

lemma index_of_nth: "x \<in> set xs \<Longrightarrow> index_of xs x < length xs \<and> xs ! index_of xs x = x"
  unfolding index_of_def
  by (induction xs) auto

lemma dd_get_nonneg:
  "\<forall>kv \<in> set pvm. 0 \<le> snd kv \<Longrightarrow> 0 \<le> dd_get (0::real) pvm k"
  unfolding dd_get_def
  by (auto split: option.splits dest!: map_of_SomeD)

lemma expand_value_area_inv:
  "ui < length prices \<Longrightarrow> li \<le> ui \<Longrightarrow> up = prices ! ui \<Longrightarrow> lp = prices ! li \<Longrightarrow>
   expand_value_area pvm prices tgt ui li up lp vav = (up', lp', vav') \<Longrightarrow>
   \<exists>ui' li'. li' \<le> li \<and> ui \<le> ui' \<and> ui' < length prices
      \<and> up' = prices ! ui' \<and> lp' = prices ! li'
      \<and> (tgt \<le> vav' \<or> ((\<forall>k. 0 \<le> dd_get 0 pvm k) \<longrightarrow> li' = 0 \<and> Suc ui' = length prices))"
proof (induction pvm prices tgt ui li up lp vav rule: expand_value_area.induct)
  case (1 pvm prices tgt ui li up lp vav)
  define va where "va = (if ui + 1 < length prices then dd_get 0 pvm (prices ! (ui + 1)) else 0)"
  define vb where "vb = (if 1 \<le> li then dd_get 0 pvm (prices ! (li - 1)) else 0)"
  have unf: "expand_value_area pvm prices tgt ui li up lp vav =
     (if vav < tgt then
        if vb \<le> va \<and> ui + 1 < length prices then
          expand_value_area pvm prices tgt (ui + 1) li (prices ! (ui + 1)) lp (vav + va)
        else if 1 \<le> li then
          expand_value_area pvm prices tgt ui (li - 1) up (prices ! (li - 1)) (vav + vb)
        else (up, lp, vav)
      else (up, lp, vav))"
    unfolding va_def vb_def
    by (subst expand_value_area.simps) (simp only: Let_def)
  show ?case
  proof (cases "vav < tgt")
    case False
    then have "(up', lp', vav') = (up, lp, vav)"
      using "1.prems"(5) by (simp add: unf)
    then show ?thesis using False "1.prems"(1-4) by auto
  next
    case True
    show ?thesis
    proof (cases "vb \<le> va \<and> ui + 1 < length prices")
      case goup: True
      then have e: "expand_value_area pvm prices tgt (ui + 1) li (prices ! (ui + 1)) lp (vav + va) = (up', lp', vav')"
        using "1.prems"(5) True by (auto simp: unf split: if_splits)
      have "\<exists>ui' li'. li' \<le> li \<and> ui + 1 \<le> ui' \<and> ui' < length prices
      \<and> up' = prices ! ui' \<and> lp' = prices ! li'
      \<and> (tgt \<le> vav' \<or> ((\<forall>k. 0 \<le> dd_get 0 pvm k) \<longrightarrow> li' = 0 \<and> Suc ui' = length prices))"
        using "1.IH"(1)[OF True va_def vb_def goup _ _ refl "1.prems"(4) e] goup "1.prems"(2)
        by simp
      then obtain ui' li' where "li' \<le> li" "ui + 1 \<le> ui'" "ui' < length prices"
        "up' = prices ! ui'" "lp' = prices ! li'"
        "tgt \<le> vav' \<or> ((\<forall>k. 0 \<le> dd_get 0 pvm k) \<longrightarrow> li' = 0 \<and> Suc ui' = length prices)"
        by blast
      moreover from this have "ui \<le> ui'" by simp
      ultimately show ?thesis by blast
    next
      case noup: False
      show ?thesis
      proof (cases "1 \<le> li")
        case godown: True
        then have e: "expand_value_area pvm prices tgt ui (li - 1) up (prices ! (li - 1)) (vav + vb) = (up', lp', vav')"
          using "1.prems"(5) True noup by (auto simp: unf split: if_splits)
        have "\<exists>ui' li'. li' \<le> li - 1 \<and> ui \<le> ui' \<and> ui' < length prices
      \<and> up' = prices ! ui' \<and> lp' = prices ! li'
      \<and> (tgt \<le> vav' \<or> ((\<forall>k. 0 \<le> dd_get 0 pvm k) \<longrightarrow> li' = 0 \<and> Suc ui' = length prices))"
          using "1.IH"(2)[OF True va_def vb_def noup godown "1.prems"(1) _ "1.prems"(3) refl e] "1.prems"(2)
          by simp
        then obtain ui' li' where "li' \<le> li - 1" "ui \<le> ui'" "ui' < length prices"
          "up' = prices ! ui'" "lp' = prices ! li'"
          "tgt \<le> vav' \<or> ((\<forall>k. 0 \<le> dd_get 0 pvm k) \<longrightarrow> li' = 0 \<and> Suc ui' = length prices)"
          by blast
        moreover from this have "li' \<le> li" by simp
        ultimately show ?thesis by blast
      next
        case stay: False
        then have r: "(up', lp', vav') = (up, lp, vav)"
          using "1.prems"(5) True noup by (auto simp: unf split: if_splits)
        have "(\<forall>k. 0 \<le> dd_get 0 pvm k) \<longrightarrow> li = 0 \<and> Suc ui = length prices"
        proof
          assume nn: "\<forall>k. 0 \<le> dd_get 0 pvm k"
          have "vb = 0" using stay by (simp add: vb_def)
          moreover have "0 \<le> va" using nn by (simp add: va_def)
          ultimately have "\<not> ui + 1 < length prices" using noup by simp
          then show "li = 0 \<and> Suc ui = length prices" using stay "1.prems"(1) by simp
        qed
        then show ?thesis using r "1.prems"(1-4) by auto
      qed
    qed
  qed
qed

lemma tpo_letter_Suc_0: "tpo_letter (Suc 0) = CHR ''B''"
  by code_simp

lemma sorted_nth_0_Min: "sorted xs \<Longrightarrow> xs \<noteq> [] \<Longrightarrow> xs ! 0 = Min (set xs)"
  by (cases xs) (auto intro!: Min_eqI[symmetric])

lemma sorted_nth_last_Max:
  "sorted xs \<Longrightarrow> Suc n = length xs \<Longrightarrow> xs ! n = Max (set xs)"
proof -
  assume s: "sorted xs" and n: "Suc n = length xs"
  have "\<And>y. y \<in> set xs \<Longrightarrow> y \<le> xs ! n"
  proof -
    fix y assume "y \<in> set xs"
    then obtain k where "k < length xs" "xs ! k = y" by (auto simp: in_set_conv_nth)
    then show "y \<le> xs ! n" using s n sorted_nth_mono[of xs k n] by auto
  qed
  moreover have "xs ! n \<in> set xs" using n by (metis lessI nth_mem)
  ultimately show ?thesis by (intro Max_eqI[symmetric]) auto
qed

text \<open>What the recomputation does on a non-empty map, in one statement.\<close>

lemma calculate_profile_shape:
  assumes ne: "price_volume_map st \<noteq> []"
    and sess: "current_session_start st = Some s"
  shows "\<exists>p li ui pre v post.
           calculate_profile cfg st = Inr (st\<lparr>current_profile := Some p\<rparr>)
         \<and> total_volume p = sum_list (map snd (price_volume_map st))
         \<and> price_volume_map st = pre @ (poc p, v) # post
         \<and> (\<forall>x \<in> set pre. snd x < v) \<and> (\<forall>x \<in> set post. snd x \<le> v)
         \<and> li \<le> ui \<and> ui < length (price_volume_map st)
         \<and> val p = sort (map fst (price_volume_map st)) ! li
         \<and> vah p = sort (map fst (price_volume_map st)) ! ui
         \<and> val p \<le> poc p \<and> poc p \<le> vah p
         \<and> (total_volume p * (value_area_percent cfg / 100) \<le> value_area_volume p
              \<or> ((\<forall>k. 0 \<le> dd_get 0 (price_volume_map st) k)
                    \<longrightarrow> li = 0 \<and> Suc ui = length (price_volume_map st)))"
proof -
  define pvm where "pvm = price_volume_map st"
  define best where "best = py_max_key (hd pvm) (tl pvm)"
  define prices where "prices = sort (map fst pvm)"
  define pidx where "pidx = index_of prices (fst best)"
  define total where "total = sum_list (map snd pvm)"
  define tgt where "tgt = total * (value_area_percent cfg / 100)"
  have pvm_ne: "pvm \<noteq> []" using ne by (simp add: pvm_def)
  then have cons: "hd pvm # tl pvm = pvm" by simp
  from py_max_key_split[of "hd pvm" "tl pvm"] obtain pre post where
    split: "pvm = pre @ best # post"
    and lt: "\<forall>x \<in> set pre. snd x < snd best" and le: "\<forall>x \<in> set post. snd x \<le> snd best"
    unfolding best_def cons by blast
  have "fst best \<in> set prices" using split by (simp add: prices_def)
  then have pidx: "pidx < length prices" "prices ! pidx = fst best"
    using index_of_nth[of "fst best" prices] by (simp_all add: pidx_def)
  have len: "length prices = length pvm" by (simp add: prices_def)
  have srt: "sorted prices" by (simp add: prices_def)
  obtain up lp vav where ex: "expand_value_area pvm prices tgt pidx pidx (fst best) (fst best)
       (dd_get 0 pvm (fst best)) = (up, lp, vav)"
    by (metis prod_cases3)
  from expand_value_area_inv[OF pidx(1) le_refl pidx(2)[symmetric] pidx(2)[symmetric] ex]
  obtain ui li where b: "li \<le> pidx" "pidx \<le> ui" "ui < length prices"
    "up = prices ! ui" "lp = prices ! li"
    "tgt \<le> vav \<or> ((\<forall>k. 0 \<le> dd_get 0 pvm k) \<longrightarrow> li = 0 \<and> Suc ui = length prices)"
    by blast
  define p where "p = \<lparr>session_start = s,
                         session_end = s + session_duration_hours cfg * 3600 * 1000,
                         poc = fst best, vah = up, val = lp, price_levels = pvm,
                         tpo_letters = price_time_map st, total_volume = total,
                         value_area_volume = vav\<rparr>"
  have r: "calculate_profile cfg st = Inr (st\<lparr>current_profile := Some p\<rparr>)"
    using ne ex[unfolded tgt_def] sess
    by (simp add: calculate_profile_def Let_def pvm_def[symmetric] best_def[symmetric]
        prices_def[symmetric] pidx_def[symmetric] total_def[symmetric] p_def)
  have c1: "total_volume p = sum_list (map snd (price_volume_map st))"
    by (simp add: p_def total_def pvm_def)
  have c2: "price_volume_map st = pre @ (poc p, snd best) # post"
    using split by (simp add: p_def pvm_def)
  have c3: "li \<le> ui" "ui < length (price_volume_map st)"
    using b(1,2,3) len by (simp_all add: pvm_def)
  have c4: "val p = sort (map fst (price_volume_map st)) ! li"
    "vah p = sort (map fst (price_volume_map st)) ! ui"
    using b(4,5) by (simp_all add: p_def prices_def pvm_def)
  have c5: "val p \<le> poc p"
    using sorted_nth_mono[OF srt b(1) pidx(1)] b(5) pidx(2) by (simp add: p_def)
  have c6: "poc p \<le> vah p"
    using sorted_nth_mono[OF srt b(2) b(3)] b(4) pidx(2) by (simp add: p_def)
  have c7: "total_volume p * (value_area_percent cfg / 100) \<le> value_area_volume p
              \<or> ((\<forall>k. 0 \<le> dd_get 0 (price_volume_map st) k)
                    \<longrightarrow> li = 0 \<and> Suc ui = length (price_volume_map st))"
    using b(6) len unfolding tgt_def pvm_def by (simp add: p_def)
  show ?thesis
    using r c1 c2 lt le c3 c4 c5 c6 c7 by blast
qed

text \<open>
  C9. Every profile that the recomputation produces has \<open>VAL \<le> POC \<le> VAH\<close>: on a
  non-empty price-volume map, inside a session, \<^verbatim>\<open>_calculate_profile\<close> returns and stores
  a profile whose value-area low is at most the point of control, which is at most the
  value-area high.
\<close>

theorem profile_val_le_poc_le_vah:
  assumes "price_volume_map st \<noteq> []"
    and "current_session_start st = Some s"
  shows "\<exists>p. calculate_profile cfg st = Inr (st\<lparr>current_profile := Some p\<rparr>)
             \<and> val p \<le> poc p \<and> poc p \<le> vah p"
  using calculate_profile_shape[OF assms, of cfg] by blast

theorem profile_val_le_poc_le_vah_witness:
  "\<exists>p. calculate_profile
          \<lparr>session_start_hour = 0, session_start_minute = 0, session_duration_hours = 24,
            time_slice_minutes = 30, value_area_percent = 70, proximity_ticks = 2\<rparr>
          \<lparr>current_session_start = Some 0, current_profile = None, previous_profile = None,
            price_volume_map = [(100, 5), (101, 3), (99, 1), (102, 1)],
            price_time_map = [], current_letter_index = 1,
            last_slice_time = Some 0, last_price = Some 100\<rparr>
        = Inr (\<lparr>current_session_start = Some 0, current_profile = None, previous_profile = None,
            price_volume_map = [(100, 5), (101, 3), (99, 1), (102, 1)],
            price_time_map = [], current_letter_index = 1,
            last_slice_time = Some 0, last_price = Some 100\<rparr>\<lparr>current_profile := Some p\<rparr>)
      \<and> val p \<le> poc p \<and> poc p \<le> vah p"
  by (rule profile_val_le_poc_le_vah[where s = 0]) simp_all

text \<open>
  C1. For a non-empty price-volume map with non-negative volumes, the recomputed profile
  has \<open>value_area_volume \<ge> (value_area_percent / 100) \<times> total_volume\<close>, or else its value
  area runs from the lowest to the highest price of the map. The total volume is the sum
  of the map's volumes.
\<close>

theorem value_area_reaches_target_or_spans_all:
  assumes "price_volume_map st \<noteq> []"
    and "current_session_start st = Some s"
    and "\<forall>kv \<in> set (price_volume_map st). 0 \<le> snd kv"
  shows "\<exists>p. calculate_profile cfg st = Inr (st\<lparr>current_profile := Some p\<rparr>)
           \<and> total_volume p = sum_list (map snd (price_volume_map st))
           \<and> ((value_area_percent cfg / 100) * total_volume p \<le> value_area_volume p
                \<or> (val p = Min (fst ` set (price_volume_map st))
                     \<and> vah p = Max (fst ` set (price_volume_map st))))"
proof -
  let ?pvm = "price_volume_map st"
  let ?prices = "sort (map fst ?pvm)"
  from calculate_profile_shape[OF assms(1,2), of cfg] obtain p li ui where
    r: "calculate_profile cfg st = Inr (st\<lparr>current_profile := Some p\<rparr>)"
    and tot: "total_volume p = sum_list (map snd ?pvm)"
    and ui: "ui < length ?pvm"
    and v: "val p = ?prices ! li" "vah p = ?prices ! ui"
    and d: "total_volume p * (value_area_percent cfg / 100) \<le> value_area_volume p
              \<or> ((\<forall>k. 0 \<le> dd_get 0 ?pvm k) \<longrightarrow> li = 0 \<and> Suc ui = length ?pvm)"
    by blast
  have nn: "\<forall>k. 0 \<le> dd_get 0 ?pvm k"
    using dd_get_nonneg[OF assms(3)] by blast
  have srt: "sorted ?prices" and len: "length ?prices = length ?pvm"
    and st: "set ?prices = fst ` set ?pvm"
    by simp_all
  have ne: "?prices \<noteq> []"
    using assms(1) len by (metis length_0_conv)
  show ?thesis
  proof (cases "total_volume p * (value_area_percent cfg / 100) \<le> value_area_volume p")
    case True
    then show ?thesis using r tot by (auto simp: mult.commute)
  next
    case False
    then have "li = 0" "Suc ui = length ?prices" using d nn len by simp_all
    then have "val p = Min (set ?prices)" "vah p = Max (set ?prices)"
      using v sorted_nth_0_Min[OF srt ne] sorted_nth_last_Max[OF srt, of ui] by simp_all
    then show ?thesis using r tot unfolding st by blast
  qed
qed

theorem value_area_reaches_target_or_spans_all_witness:
  "\<exists>p. calculate_profile
          \<lparr>session_start_hour = 0, session_start_minute = 0, session_duration_hours = 24,
            time_slice_minutes = 30, value_area_percent = 70, proximity_ticks = 2\<rparr>
          \<lparr>current_session_start = Some 0, current_profile = None, previous_profile = None,
            price_volume_map = [(100, 5), (101, 3), (99, 1), (102, 1)],
            price_time_map = [], current_letter_index = 1,
            last_slice_time = Some 0, last_price = Some 100\<rparr>
        = Inr (\<lparr>current_session_start = Some 0, current_profile = None, previous_profile = None,
            price_volume_map = [(100, 5), (101, 3), (99, 1), (102, 1)],
            price_time_map = [], current_letter_index = 1,
            last_slice_time = Some 0, last_price = Some 100\<rparr>\<lparr>current_profile := Some p\<rparr>)
      \<and> total_volume p = 10
      \<and> ((70 / 100) * total_volume p \<le> value_area_volume p \<or> (val p = 99 \<and> vah p = 102))"
  using value_area_reaches_target_or_spans_all[where s = 0 and cfg =
          "\<lparr>session_start_hour = 0, session_start_minute = 0, session_duration_hours = 24,
            time_slice_minutes = 30, value_area_percent = 70, proximity_ticks = 2\<rparr>"
         and st = "\<lparr>current_session_start = Some 0, current_profile = None, previous_profile = None,
            price_volume_map = [(100, 5), (101, 3), (99, 1), (102, 1)],
            price_time_map = [], current_letter_index = 1,
            last_slice_time = Some 0, last_price = Some 100\<rparr>"]
  by simp

text \<open>
  C5 (amended). The point of control is the first price, in the insertion order of the
  price-volume map, whose volume is the maximum: every entry inserted before it has a
  strictly smaller volume and every entry inserted after it has at most its volume.
\<close>

theorem poc_is_first_maximum_in_insertion_order:
  assumes "price_volume_map st \<noteq> []"
    and "current_session_start st = Some s"
  shows "\<exists>p pre v post.
           calculate_profile cfg st = Inr (st\<lparr>current_profile := Some p\<rparr>)
         \<and> price_volume_map st = pre @ (poc p, v) # post
         \<and> (\<forall>x \<in> set pre. snd x < v) \<and> (\<forall>x \<in> set post. snd x \<le> v)"
  using calculate_profile_shape[OF assms, of cfg] by blast

theorem poc_is_first_maximum_in_insertion_order_witness:
  "\<exists>p. calculate_profile
          \<lparr>session_start_hour = 0, session_start_minute = 0, session_duration_hours = 24,
            time_slice_minutes = 30, value_area_percent = 70, proximity_ticks = 2\<rparr>
          \<lparr>current_session_start = Some 0, current_profile = None, previous_profile = None,
            price_volume_map = [(101, 3), (100, 5), (99, 5)],
            price_time_map = [], current_letter_index = 1,
            last_slice_time = Some 0, last_price = Some 100\<rparr>
        = Inr (\<lparr>current_session_start = Some 0, current_profile = None, previous_profile = None,
            price_volume_map = [(101, 3), (100, 5), (99, 5)],
            price_time_map = [], current_letter_index = 1,
            last_slice_time = Some 0, last_price = Some 100\<rparr>\<lparr>current_profile := Some p\<rparr>)
      \<and> (\<exists>pre v post. [(101, 3), (100, 5), (99, 5 :: real)] = pre @ (poc p, v) # post
            \<and> (\<forall>x \<in> set pre. snd x < v) \<and> (\<forall>x \<in> set post. snd x \<le> v))"
  using poc_is_first_maximum_in_insertion_order[where s = 0 and cfg =
          "\<lparr>session_start_hour = 0, session_start_minute = 0, session_duration_hours = 24,
            time_slice_minutes = 30, value_area_percent = 70, proximity_ticks = 2\<rparr>"
         and st = "\<lparr>current_session_start = Some 0, current_profile = None, previous_profile = None,
            price_volume_map = [(101, 3), (100, 5), (99, 5)],
            price_time_map = [], current_letter_index = 1,
            last_slice_time = Some 0, last_price = Some 100\<rparr>"]
  by simp

text \<open>
  C5 as stated fails. Two candles with \<^verbatim>\<open>high == low\<close>, the first at 100 and the second
  at 99, each with volume 5, leave the map \<open>[(100, 5), (99, 5)]\<close>: both prices hold the
  maximum volume, and the recomputed point of control is 100, not the lowest price 99.
\<close>

theorem poc_tie_lowest_price_counterexample:
  "tpo_update
     \<lparr>session_start_hour = 0, session_start_minute = 0, session_duration_hours = 24,
       time_slice_minutes = 30, value_area_percent = 70, proximity_ticks = 2\<rparr>
     (fst (tpo_update
       \<lparr>session_start_hour = 0, session_start_minute = 0, session_duration_hours = 24,
         time_slice_minutes = 30, value_area_percent = 70, proximity_ticks = 2\<rparr>
       tpo_init
       \<lparr>timestamp = 0, open_px = 100, high = 100, low = 100, close = 100, volume = 5\<rparr>))
     \<lparr>timestamp = 60000, open_px = 99, high = 99, low = 99, close = 99, volume = 5\<rparr>
   = (\<lparr>current_session_start = Some 0,
       current_profile = Some
         \<lparr>session_start = 0, session_end = 86400000, poc = 100, vah = 100, val = 99,
          price_levels = [(100, 5), (99, 5)],
          tpo_letters = [(100, ''B''), (99, ''B'')],
          total_volume = 10, value_area_volume = 10\<rparr>,
       previous_profile = None,
       price_volume_map = [(100, 5), (99, 5)],
       price_time_map = [(100, ''B''), (99, ''B'')],
       current_letter_index = 1,
       last_slice_time = Some 0,
       last_price = Some 99\<rparr>,
      Inr (Some VAL_BREAK))"
  by (simp add: tpo_update_def get_session_start_def tpo_init_def start_new_session_def
    is_new_time_slice_def advance_tpo_letter_def add_price_volume_def dd_get_def
    tpo_letter_Suc_0 calculate_profile_def index_of_def Let_def expand_value_area.simps
    detect_structure_event_def is_near_def tick_size_def is_inside_value_area_def)

section \<open>Properties of the signal engine\<close>

lemma if_eqE:
  "(if c then a else b) = x \<Longrightarrow> (c \<Longrightarrow> a = x \<Longrightarrow> P) \<Longrightarrow> (\<not> c \<Longrightarrow> b = x \<Longrightarrow> P) \<Longrightarrow> P"
  by (cases c) simp_all

lemma case_sum_eqE:
  "(case s of Inl e \<Rightarrow> f e | Inr v \<Rightarrow> g v) = x \<Longrightarrow>
   (\<And>e. s = Inl e \<Longrightarrow> f e = x \<Longrightarrow> P) \<Longrightarrow> (\<And>v. s = Inr v \<Longrightarrow> g v = x \<Longrightarrow> P) \<Longrightarrow> P"
  by (cases s) simp_all

lemma pair_eqE: "(a, b) = (x, y) \<Longrightarrow> (a = x \<Longrightarrow> b = y \<Longrightarrow> P) \<Longrightarrow> P"
  by simp

lemma missing_data_cases:
  "\<not> (\<exists>a b c. tpo = Some a \<and> vw = Some b \<and> ofd = Some c) \<Longrightarrow>
   (case (tpo, vw, ofd) of (Some a, Some b, Some c) \<Rightarrow> f a b c | _ \<Rightarrow> d) = d"
  by (cases tpo; cases vw; cases ofd) auto

lemma check_long_entry_cases:
  assumes "check_long_entry cfg st t p tpo ev vw ofd = (st', r)"
  shows "(\<exists>e. r = Inr (Some e) \<and> st' = st\<lparr>last_long_signal_time := Some t\<rparr>
            \<and> signal_type e = LONG_ENTRY \<and> se_timestamp e = t
            \<and> 0 \<le> confidence e \<and> confidence e \<le> 1
            \<and> \<not> is_in_cooldown cfg (last_long_signal_time st) t)
         \<or> (st' = st \<and> (r = Inr None \<or> (\<exists>err. r = Inl err)))"
proof (cases "\<exists>a b c. tpo = Some a \<and> vw = Some b \<and> ofd = Some c")
  case False
  show ?thesis using assms unfolding check_long_entry_def missing_data_cases[OF False]
    by (elim if_eqE pair_eqE; hypsubst) simp_all
next
  case True
  then obtain a b c where s: "tpo = Some a" "vw = Some b" "ofd = Some c" by blast
  show ?thesis
    using assms unfolding check_long_entry_def Let_def s option.case prod.case
    by (elim if_eqE case_sum_eqE pair_eqE; hypsubst) (simp_all (no_asm))
qed

lemma check_short_entry_cases:
  assumes "check_short_entry cfg st t p tpo ev vw ofd = (st', r)"
  shows "(\<exists>e. r = Inr (Some e) \<and> st' = st\<lparr>last_short_signal_time := Some t\<rparr>
            \<and> signal_type e = SHORT_ENTRY \<and> se_timestamp e = t
            \<and> 0 \<le> confidence e \<and> confidence e \<le> 1
            \<and> \<not> is_in_cooldown cfg (last_short_signal_time st) t)
         \<or> (st' = st \<and> (r = Inr None \<or> (\<exists>err. r = Inl err)))"
proof (cases "\<exists>a b c. tpo = Some a \<and> vw = Some b \<and> ofd = Some c")
  case False
  show ?thesis using assms unfolding check_short_entry_def missing_data_cases[OF False]
    by (elim if_eqE pair_eqE; hypsubst) simp_all
next
  case True
  then obtain a b c where s: "tpo = Some a" "vw = Some b" "ofd = Some c" by blast
  show ?thesis
    using assms unfolding check_short_entry_def Let_def s option.case prod.case
    by (elim if_eqE case_sum_eqE pair_eqE; hypsubst) (simp_all (no_asm))
qed

lemma check_upside_failure_range:
  "check_upside_failure cfg st p a b c conds = (x, conds') \<Longrightarrow> x = 0 \<or> (0 \<le> x)"
  unfolding check_upside_failure_def Let_def
  by (elim if_eqE pair_eqE; hypsubst) (simp_all (no_asm))

lemma check_downside_failure_range:
  "check_downside_failure cfg st p a b c conds = (x, conds') \<Longrightarrow> x = 0 \<or> (0 \<le> x)"
  unfolding check_downside_failure_def Let_def
  by (elim if_eqE pair_eqE; hypsubst) (simp_all (no_asm))

lemma check_failure_patterns_cases:
  assumes "check_failure_patterns cfg st t p tpo vw ofd = (st', r)"
  shows "(\<exists>e. r = Some e \<and> st' = st\<lparr>last_failure_signal_time := Some t\<rparr>
            \<and> (signal_type e = SHORT_FAILURE \<or> signal_type e = LONG_FAILURE)
            \<and> se_timestamp e = t
            \<and> 0 \<le> confidence e \<and> confidence e \<le> 1
            \<and> \<not> is_in_cooldown cfg (last_failure_signal_time st) t)
         \<or> (st' = st \<and> r = None)"
proof (cases "\<exists>a b c. tpo = Some a \<and> vw = Some b \<and> ofd = Some c")
  case False
  show ?thesis using assms unfolding check_failure_patterns_def missing_data_cases[OF False]
    by (elim if_eqE pair_eqE; hypsubst) simp_all
next
  case True
  then obtain a b c where s: "tpo = Some a" "vw = Some b" "ofd = Some c" by blast
  obtain u c1 where up: "check_upside_failure cfg st p a b c default_conditions = (u, c1)"
    by (cases "check_upside_failure cfg st p a b c default_conditions")
  obtain d c2 where down: "check_downside_failure cfg st p a b c c1 = (d, c2)"
    by (cases "check_downside_failure cfg st p a b c c1")
  have u: "0 \<le> u" using check_upside_failure_range[OF up] by auto
  have d: "0 \<le> d" using check_downside_failure_range[OF down] by auto
  show ?thesis
    using assms u d unfolding check_failure_patterns_def s option.case prod.case up down
    by (elim if_eqE pair_eqE; hypsubst) simp_all
qed

lemma update_price_tracking_timers:
  "last_long_signal_time (update_price_tracking st p) = last_long_signal_time st"
  "last_short_signal_time (update_price_tracking st p) = last_short_signal_time st"
  "last_failure_signal_time (update_price_tracking st p) = last_failure_signal_time st"
  by (simp_all add: update_price_tracking_def Let_def split: option.splits)

lemma timer_of_price_tracking:
  "timer_of ty (update_price_tracking st p) = timer_of ty st"
  by (cases ty) (simp_all add: update_price_tracking_timers)

text \<open>
  One call of \<^verbatim>\<open>check_signals\<close>: either it returns a signal, stamped with the call time,
  with a confidence in \<open>[0, 1]\<close>, outside the cooldown of its own timer, which it sets to
  the call time while every timer of another category keeps its value; or it returns no
  signal and leaves all timers alone.
\<close>

lemma check_signals_step:
  assumes "check_signals cfg st t p tpo ev vw ofd = (st', r)"
  shows "(\<exists>e. r = Inr (Some e) \<and> se_timestamp e = t
            \<and> 0 \<le> confidence e \<and> confidence e \<le> 1
            \<and> \<not> is_in_cooldown cfg (timer_of (signal_type e) st) t
            \<and> timer_of (signal_type e) st' = Some t
            \<and> last_long_signal_time st'
                = (if signal_type e = LONG_ENTRY then Some t else last_long_signal_time st)
            \<and> last_short_signal_time st'
                = (if signal_type e = SHORT_ENTRY then Some t else last_short_signal_time st)
            \<and> last_failure_signal_time st'
                = (if signal_type e = LONG_FAILURE \<or> signal_type e = SHORT_FAILURE
                   then Some t else last_failure_signal_time st))
         \<or> ((r = Inr None \<or> (\<exists>err. r = Inl err)) \<and> (\<forall>ty. timer_of ty st' = timer_of ty st))"
proof -
  define st1 where "st1 = update_price_tracking st p"
  have tm: "\<And>ty. timer_of ty st1 = timer_of ty st"
    by (simp add: st1_def timer_of_price_tracking)
  have tm': "last_long_signal_time st1 = last_long_signal_time st"
    "last_short_signal_time st1 = last_short_signal_time st"
    "last_failure_signal_time st1 = last_failure_signal_time st"
    by (simp_all add: st1_def update_price_tracking_timers)
  obtain st2 f where F: "check_failure_patterns cfg st1 t p tpo vw ofd = (st2, f)"
    by (cases "check_failure_patterns cfg st1 t p tpo vw ofd")
  show ?thesis
  proof (cases f)
    case (Some e)
    then have r: "r = Inr (Some e)" "st' = st2"
      using assms F by (simp_all add: check_signals_def Let_def st1_def[symmetric])
    from check_failure_patterns_cases[OF F] Some
    have e: "st2 = st1\<lparr>last_failure_signal_time := Some t\<rparr>"
      "signal_type e = SHORT_FAILURE \<or> signal_type e = LONG_FAILURE"
      "se_timestamp e = t" "0 \<le> confidence e" "confidence e \<le> 1"
      "\<not> is_in_cooldown cfg (last_failure_signal_time st1) t"
      by auto
    have "last_long_signal_time st'
                = (if signal_type e = LONG_ENTRY then Some t else last_long_signal_time st)
            \<and> last_short_signal_time st'
                = (if signal_type e = SHORT_ENTRY then Some t else last_short_signal_time st)
            \<and> last_failure_signal_time st'
                = (if signal_type e = LONG_FAILURE \<or> signal_type e = SHORT_FAILURE
                   then Some t else last_failure_signal_time st)"
      using e(1,2) r(2) tm' by auto
    moreover have "timer_of (signal_type e) st' = Some t"
      using e(1,2) r(2) by auto
    moreover have "\<not> is_in_cooldown cfg (timer_of (signal_type e) st) t"
      using e(2,6) tm' by auto
    ultimately show ?thesis using r e(3,4,5) by blast
  next
    case None
    then have st2: "st2 = st1" using check_failure_patterns_cases[OF F] by auto
    obtain st3 l where L: "check_long_entry cfg st1 t p tpo ev vw ofd = (st3, l)"
      by (cases "check_long_entry cfg st1 t p tpo ev vw ofd")
    from check_long_entry_cases[OF L]
    consider (emit) e where "l = Inr (Some e)" "st3 = st1\<lparr>last_long_signal_time := Some t\<rparr>"
        "signal_type e = LONG_ENTRY" "se_timestamp e = t" "0 \<le> confidence e"
        "confidence e \<le> 1" "\<not> is_in_cooldown cfg (last_long_signal_time st1) t"
      | (err) x where "l = Inl x" "st3 = st1"
      | (none) "l = Inr None" "st3 = st1"
      by blast
    then show ?thesis
    proof cases
      case emit
      then have r: "r = Inr (Some e)" "st' = st3"
        using assms F L None st2
        by (simp_all add: check_signals_def Let_def st1_def[symmetric])
      have "last_long_signal_time st'
                = (if signal_type e = LONG_ENTRY then Some t else last_long_signal_time st)
            \<and> last_short_signal_time st'
                = (if signal_type e = SHORT_ENTRY then Some t else last_short_signal_time st)
            \<and> last_failure_signal_time st'
                = (if signal_type e = LONG_FAILURE \<or> signal_type e = SHORT_FAILURE
                   then Some t else last_failure_signal_time st)"
        using emit(2,3) r(2) tm' by auto
      moreover have "timer_of (signal_type e) st' = Some t"
        using emit(2,3) r(2) by auto
      moreover have "\<not> is_in_cooldown cfg (timer_of (signal_type e) st) t"
        using emit(3,7) tm' by auto
      ultimately show ?thesis using r emit(4,5,6) by blast
    next
      case err
      then have "r = Inl x" "st' = st1"
        using assms F L None st2
        by (simp_all add: check_signals_def Let_def st1_def[symmetric])
      then show ?thesis using tm by auto
    next
      case none
      then have S: "check_short_entry cfg st1 t p tpo ev vw ofd = (st', r)"
        using assms F L None st2
        by (simp add: check_signals_def Let_def st1_def[symmetric])
      from check_short_entry_cases[OF S]
      consider (emit) e where "r = Inr (Some e)" "st' = st1\<lparr>last_short_signal_time := Some t\<rparr>"
          "signal_type e = SHORT_ENTRY" "se_timestamp e = t" "0 \<le> confidence e"
          "confidence e \<le> 1" "\<not> is_in_cooldown cfg (last_short_signal_time st1) t"
        | (quiet) "st' = st1" "r = Inr None \<or> (\<exists>err. r = Inl err)"
        by blast
      then show ?thesis
      proof cases
        case emit
        have "last_long_signal_time st'
                = (if signal_type e = LONG_ENTRY then Some t else last_long_signal_time st)
            \<and> last_short_signal_time st'
                = (if signal_type e = SHORT_ENTRY then Some t else last_short_signal_time st)
            \<and> last_failure_signal_time st'
                = (if signal_type e = LONG_FAILURE \<or> signal_type e = SHORT_FAILURE
                   then Some t else last_failure_signal_time st)"
          using emit(2,3) tm' by auto
        moreover have "timer_of (signal_type e) st' = Some t"
          using emit(2,3) by auto
        moreover have "\<not> is_in_cooldown cfg (timer_of (signal_type e) st) t"
          using emit(3,7) tm' by auto
        ultimately show ?thesis using emit(1,4,5,6) by blast
      next
        case quiet
        then show ?thesis using tm by auto
      qed
    qed
  qed
qed

lemmas engine_eval = check_call_def check_signals_def update_price_tracking_def
  check_failure_patterns_def check_upside_failure_def check_downside_failure_def
  check_long_entry_def check_short_entry_def is_in_cooldown_def is_near_def
  is_pullback_zone_def default_conditions_def engine_init_def Let_def

lemma check_call_step:
  assumes "check_call cfg st c = (st', r)"
  shows "(\<exists>e. r = Inr (Some e) \<and> se_timestamp e = call_time c
            \<and> 0 \<le> confidence e \<and> confidence e \<le> 1
            \<and> \<not> is_in_cooldown cfg (timer_of (signal_type e) st) (call_time c)
            \<and> timer_of (signal_type e) st' = Some (call_time c)
            \<and> (\<forall>ty. timer_of ty st' = timer_of ty st
                   \<or> (timer_of ty st' = Some (call_time c)
                       \<and> timer_of ty st = timer_of (signal_type e) st)))
         \<or> ((r = Inr None \<or> (\<exists>err. r = Inl err)) \<and> (\<forall>ty. timer_of ty st' = timer_of ty st))"
proof -
  from check_signals_step[OF assms[unfolded check_call_def]]
  consider (emit) e where "r = Inr (Some e)" "se_timestamp e = call_time c"
      "0 \<le> confidence e" "confidence e \<le> 1"
      "\<not> is_in_cooldown cfg (timer_of (signal_type e) st) (call_time c)"
      "timer_of (signal_type e) st' = Some (call_time c)"
      "last_long_signal_time st'
         = (if signal_type e = LONG_ENTRY then Some (call_time c) else last_long_signal_time st)"
      "last_short_signal_time st'
         = (if signal_type e = SHORT_ENTRY then Some (call_time c) else last_short_signal_time st)"
      "last_failure_signal_time st'
         = (if signal_type e = LONG_FAILURE \<or> signal_type e = SHORT_FAILURE
            then Some (call_time c) else last_failure_signal_time st)"
    | (quiet) "r = Inr None \<or> (\<exists>err. r = Inl err)" "\<forall>ty. timer_of ty st' = timer_of ty st"
    by blast
  then show ?thesis
  proof cases
    case emit
    have "\<forall>ty. timer_of ty st' = timer_of ty st
                   \<or> (timer_of ty st' = Some (call_time c)
                       \<and> timer_of ty st = timer_of (signal_type e) st)"
    proof
      fix ty show "timer_of ty st' = timer_of ty st
                   \<or> (timer_of ty st' = Some (call_time c)
                       \<and> timer_of ty st = timer_of (signal_type e) st)"
        using emit(7,8,9) by (cases ty; cases "signal_type e") simp_all
    qed
    then show ?thesis using emit(1-6) by blast
  next
    case quiet
    then show ?thesis by blast
  qed
qed

lemma emitted_after_timer:
  "e \<in> set (emitted_signals cfg st cs) \<Longrightarrow> timer_of (signal_type e) st = Some l \<Longrightarrow>
   0 < cooldown_seconds cfg \<Longrightarrow>
   cooldown_seconds cfg \<le> real_of_int (se_timestamp e - l) / 1000"
proof (induction cs arbitrary: st l)
  case Nil
  then show ?case by simp
next
  case (Cons c cs)
  obtain st' r where step: "check_call cfg st c = (st', r)" by (cases "check_call cfg st c")
  from check_call_step[OF step]
  consider (emit) e1 where "r = Inr (Some e1)" "se_timestamp e1 = call_time c"
      "\<not> is_in_cooldown cfg (timer_of (signal_type e1) st) (call_time c)"
      "timer_of (signal_type e1) st' = Some (call_time c)"
      "\<forall>ty. timer_of ty st' = timer_of ty st
            \<or> (timer_of ty st' = Some (call_time c)
                \<and> timer_of ty st = timer_of (signal_type e1) st)"
    | (quiet) "r = Inr None \<or> (\<exists>err. r = Inl err)" "\<forall>ty. timer_of ty st' = timer_of ty st"
    by blast
  then show ?case
  proof cases
    case quiet
    then have eq: "emitted_signals cfg st (c # cs) = emitted_signals cfg st' cs"
      using step by auto
    show ?thesis using Cons.IH[of st' l] Cons.prems(1)[unfolded eq] Cons.prems(2,3) quiet(2)
      by simp
  next
    case emit
    have es: "emitted_signals cfg st (c # cs) = e1 # emitted_signals cfg st' cs"
      using step emit(1) by simp
    have first: "\<And>l'. timer_of (signal_type e1) st = Some l' \<Longrightarrow>
        cooldown_seconds cfg \<le> real_of_int (call_time c - l') / 1000"
      using emit(3) by (simp add: is_in_cooldown_def)
    show ?thesis
    proof (cases "e = e1")
      case True
      then show ?thesis using first[of l] Cons.prems(2) emit(2) by simp
    next
      case False
      then have mem: "e \<in> set (emitted_signals cfg st' cs)"
        using Cons.prems(1)[unfolded es] by simp
      from emit(5) have "timer_of (signal_type e) st' = timer_of (signal_type e) st
            \<or> (timer_of (signal_type e) st' = Some (call_time c)
                \<and> timer_of (signal_type e) st = timer_of (signal_type e1) st)" by blast
      then show ?thesis
      proof
        assume "timer_of (signal_type e) st' = timer_of (signal_type e) st"
        then show ?thesis using Cons.IH[OF mem, of l] Cons.prems(2,3) by simp
      next
        assume a: "timer_of (signal_type e) st' = Some (call_time c)
                \<and> timer_of (signal_type e) st = timer_of (signal_type e1) st"
        then have 1: "cooldown_seconds cfg \<le> real_of_int (se_timestamp e - call_time c) / 1000"
          using Cons.IH[OF mem, of "call_time c"] Cons.prems(3) by simp
        have 2: "cooldown_seconds cfg \<le> real_of_int (call_time c - l) / 1000"
          using first[of l] a Cons.prems(2) by simp
        show ?thesis using 1 2 Cons.prems(3) by simp
      qed
    qed
  qed
qed

lemma emitted_pairwise:
  "i < j \<Longrightarrow> j < length (emitted_signals cfg st cs) \<Longrightarrow>
   signal_type (emitted_signals cfg st cs ! i) = signal_type (emitted_signals cfg st cs ! j) \<Longrightarrow>
   cooldown_seconds cfg
     \<le> \<bar>real_of_int (se_timestamp (emitted_signals cfg st cs ! j)
                       - se_timestamp (emitted_signals cfg st cs ! i))\<bar> / 1000"
proof (induction cs arbitrary: st i j)
  case Nil
  then show ?case by simp
next
  case (Cons c cs)
  obtain st' r where step: "check_call cfg st c = (st', r)" by (cases "check_call cfg st c")
  from check_call_step[OF step]
  consider (emit) e1 where "r = Inr (Some e1)" "se_timestamp e1 = call_time c"
      "timer_of (signal_type e1) st' = Some (call_time c)"
    | (quiet) "r = Inr None \<or> (\<exists>err. r = Inl err)"
    by blast
  then show ?case
  proof cases
    case quiet
    then have eq: "emitted_signals cfg st (c # cs) = emitted_signals cfg st' cs"
      using step by auto
    show ?thesis unfolding eq using Cons.IH[of i j st'] Cons.prems[unfolded eq] by simp
  next
    case emit
    let ?rest = "emitted_signals cfg st' cs"
    have es: "emitted_signals cfg st (c # cs) = e1 # ?rest"
      using step emit(1) by simp
    obtain j' where j': "j = Suc j'" using Cons.prems(1) by (cases j) auto
    note p = Cons.prems[unfolded es]
    have j'len: "j' < length ?rest" using p(2) j' by simp
    show ?thesis
    proof (cases i)
      case 0
      let ?e = "?rest ! j'"
      have mem: "?e \<in> set ?rest" using j'len by simp
      have ty: "signal_type ?e = signal_type e1" using p(3) j' 0 by simp
      show ?thesis
      proof (cases "0 < cooldown_seconds cfg")
        case True
        have "cooldown_seconds cfg \<le> real_of_int (se_timestamp ?e - call_time c) / 1000"
          using emitted_after_timer[OF mem _ True, of "call_time c"] emit(3) ty by simp
        then show ?thesis unfolding es using j' 0 emit(2) by simp
      next
        case False
        have "0 \<le> \<bar>real_of_int (se_timestamp ?e - se_timestamp e1)\<bar> / 1000" by simp
        then show ?thesis unfolding es using False j' 0 by simp
      qed
    next
      case (Suc i')
      then show ?thesis unfolding es using Cons.IH[of i' j' st'] p j' j'len by simp
    qed
  qed
qed

lemma ex_run:
  "emitted_signals ex_signal_config (engine_init ''BTCUSDT'')
      [ex_call 0, ex_call 100000, ex_call 300000] =
     [\<lparr>se_timestamp = 0, symbol = ''BTCUSDT'', signal_type = SHORT_FAILURE,
                 price = 100,
                 conditions = default_conditions\<lparr>tpo_event := Some VAH_REJECTION,
                                delta_flip := True, cvd_divergence := True\<rparr>,
                 confidence = 7 / 10,
                 tpo_data = Some ex_profile, vwap_data = Some ex_vwap_data,
                 orderflow_data = Some ex_metrics,
                 alerted = False, alert_timestamp = None\<rparr>,
      \<lparr>se_timestamp = 300000, symbol = ''BTCUSDT'', signal_type = SHORT_FAILURE,
                 price = 100,
                 conditions = default_conditions\<lparr>tpo_event := Some VAH_REJECTION,
                                delta_flip := True, cvd_divergence := True\<rparr>,
                 confidence = 7 / 10,
                 tpo_data = Some ex_profile, vwap_data = Some ex_vwap_data,
                 orderflow_data = Some ex_metrics,
                 alerted = False, alert_timestamp = None\<rparr>]"
  by (simp add: ex_signal_config_def ex_profile_def ex_vwap_data_def ex_metrics_def ex_call_def
      engine_eval)

text \<open>
  C3. Every signal that \<^verbatim>\<open>check_signals\<close> returns, of any of the four types, has a
  confidence in \<open>[0, 1]\<close>.
\<close>

theorem signal_confidence_in_unit_interval:
  assumes "check_signals cfg st t p tpo ev vw ofd = (st', Inr (Some e))"
  shows "0 \<le> confidence e \<and> confidence e \<le> 1"
  using check_signals_step[OF assms] by auto

theorem signal_confidence_in_unit_interval_witness:
  "\<exists>st' e. check_signals ex_signal_config (engine_init ''BTCUSDT'') 0 100 (Some ex_profile)
              (Some VAH_BREAKOUT) (Some ex_vwap_rising) (Some ex_metrics_bullish)
            = (st', Inr (Some e))
          \<and> signal_type e = LONG_ENTRY \<and> confidence e = 1
          \<and> 0 \<le> confidence e \<and> confidence e \<le> 1"
proof -
  have "\<exists>st' e. check_signals ex_signal_config (engine_init ''BTCUSDT'') 0 100 (Some ex_profile)
              (Some VAH_BREAKOUT) (Some ex_vwap_rising) (Some ex_metrics_bullish)
            = (st', Inr (Some e))
          \<and> signal_type e = LONG_ENTRY \<and> confidence e = 1"
    by (simp add: ex_signal_config_def ex_profile_def ex_vwap_data_def ex_metrics_def
        ex_vwap_rising_def ex_metrics_bullish_def engine_eval distance_to_poc_def)
  then obtain st' e where ev: "check_signals ex_signal_config (engine_init ''BTCUSDT'') 0 100
              (Some ex_profile) (Some VAH_BREAKOUT) (Some ex_vwap_rising) (Some ex_metrics_bullish)
            = (st', Inr (Some e))" and "signal_type e = LONG_ENTRY" "confidence e = 1"
    by blast
  with signal_confidence_in_unit_interval[OF ev] show ?thesis by blast
qed

text \<open>
  C4. In the signals that a sequence of \<^verbatim>\<open>check_signals\<close> calls on one engine returns,
  two signals of the same type are never less than \<open>cooldown_seconds\<close> apart. Each call
  that returns a signal is outside the cooldown of that signal's own timer (long, short or
  failure), sets that timer to the call time, and leaves the timers of the other
  categories as they were.
\<close>

theorem cooldown_separates_same_type_signals:
  "(\<forall>i j. i < j \<and> j < length (emitted_signals cfg st calls)
           \<and> signal_type (emitted_signals cfg st calls ! i)
               = signal_type (emitted_signals cfg st calls ! j)
        \<longrightarrow> cooldown_seconds cfg
              \<le> \<bar>real_of_int (se_timestamp (emitted_signals cfg st calls ! j)
                               - se_timestamp (emitted_signals cfg st calls ! i))\<bar> / 1000)
   \<and> (\<forall>c st' e. check_call cfg st c = (st', Inr (Some e))
        \<longrightarrow> \<not> is_in_cooldown cfg (timer_of (signal_type e) st) (call_time c)
            \<and> timer_of (signal_type e) st' = Some (call_time c)
            \<and> last_long_signal_time st'
                = (if signal_type e = LONG_ENTRY then Some (call_time c)
                   else last_long_signal_time st)
            \<and> last_short_signal_time st'
                = (if signal_type e = SHORT_ENTRY then Some (call_time c)
                   else last_short_signal_time st)
            \<and> last_failure_signal_time st'
                = (if signal_type e = LONG_FAILURE \<or> signal_type e = SHORT_FAILURE
                   then Some (call_time c) else last_failure_signal_time st))"
proof (intro conjI allI impI)
  fix i j
  assume "i < j \<and> j < length (emitted_signals cfg st calls)
           \<and> signal_type (emitted_signals cfg st calls ! i)
               = signal_type (emitted_signals cfg st calls ! j)"
  then show "cooldown_seconds cfg
              \<le> \<bar>real_of_int (se_timestamp (emitted_signals cfg st calls ! j)
                               - se_timestamp (emitted_signals cfg st calls ! i))\<bar> / 1000"
    using emitted_pairwise[of i j cfg st calls] by blast
next
  fix c st' e
  assume a: "check_call cfg st c = (st', Inr (Some e))"
  note s = check_signals_step[OF a[unfolded check_call_def]]
  from s show "\<not> is_in_cooldown cfg (timer_of (signal_type e) st) (call_time c)" by auto
  from s show "timer_of (signal_type e) st' = Some (call_time c)" by auto
  from s show "last_long_signal_time st'
                = (if signal_type e = LONG_ENTRY then Some (call_time c)
                   else last_long_signal_time st)" by auto
  from s show "last_short_signal_time st'
                = (if signal_type e = SHORT_ENTRY then Some (call_time c)
                   else last_short_signal_time st)" by auto
  from s show "last_failure_signal_time st'
                = (if signal_type e = LONG_FAILURE \<or> signal_type e = SHORT_FAILURE
                   then Some (call_time c) else last_failure_signal_time st)" by auto
qed

theorem cooldown_separates_same_type_signals_witness:
  "length (emitted_signals ex_signal_config (engine_init ''BTCUSDT'')
             [ex_call 0, ex_call 100000, ex_call 300000]) = 2
   \<and> signal_type (emitted_signals ex_signal_config (engine_init ''BTCUSDT'')
             [ex_call 0, ex_call 100000, ex_call 300000] ! 0)
     = signal_type (emitted_signals ex_signal_config (engine_init ''BTCUSDT'')
             [ex_call 0, ex_call 100000, ex_call 300000] ! 1)
   \<and> cooldown_seconds ex_signal_config
       \<le> \<bar>real_of_int
            (se_timestamp (emitted_signals ex_signal_config (engine_init ''BTCUSDT'')
               [ex_call 0, ex_call 100000, ex_call 300000] ! 1)
             - se_timestamp (emitted_signals ex_signal_config (engine_init ''BTCUSDT'')
               [ex_call 0, ex_call 100000, ex_call 300000] ! 0))\<bar> / 1000"
proof -
  let ?es = "emitted_signals ex_signal_config (engine_init ''BTCUSDT'')
               [ex_call 0, ex_call 100000, ex_call 300000]"
  have len: "length ?es = 2" and ty: "signal_type (?es ! 0) = signal_type (?es ! 1)"
    unfolding ex_run by simp_all
  have "(0::nat) < 1 \<and> 1 < length ?es \<and> signal_type (?es ! 0) = signal_type (?es ! 1)"
    using len ty by simp
  with cooldown_separates_same_type_signals[of ex_signal_config "engine_init ''BTCUSDT''"
         "[ex_call 0, ex_call 100000, ex_call 300000]"]
  have "cooldown_seconds ex_signal_config
       \<le> \<bar>real_of_int (se_timestamp (?es ! 1) - se_timestamp (?es ! 0))\<bar> / 1000"
    by blast
  with len ty show ?thesis by blast
qed

section \<open>Properties of the VWAP calculator\<close>

lemma update_pullback_tracking_fields:
  assumes "update_pullback_tracking cfg st p = Inr st'"
  shows "vw_current_session_start st' = vw_current_session_start st
       \<and> cumulative_pv st' = cumulative_pv st
       \<and> cumulative_volume st' = cumulative_volume st
       \<and> cumulative_pv2 st' = cumulative_pv2 st
       \<and> vwap_history st' = vwap_history st
       \<and> current_vwap st' = current_vwap st"
  using assms unfolding update_pullback_tracking_def
  by (auto split: option.splits sum.splits bool.splits)

text \<open>
  One update in session \<open>s\<close>: the state \<open>st3\<close> before the pullback tracking, the snapshot
  \<open>d\<close>, and how the call ends.
\<close>

lemma vwap_calc_update_form:
  assumes g: "get_session_start (timestamp c) (session_reset_hour cfg) (session_reset_minute cfg)
                = Inr s"
  shows "\<exists>st3 d.
           vw_current_session_start st3 = Some s
         \<and> cumulative_pv st3
             = (if vw_current_session_start st = Some s then cumulative_pv st else 0)
               + typical_price c * volume c
         \<and> cumulative_volume st3
             = (if vw_current_session_start st = Some s then cumulative_volume st else 0)
               + volume c
         \<and> cumulative_pv2 st3
             = (if vw_current_session_start st = Some s then cumulative_pv2 st else 0)
               + typical_price c ^ 2 * volume c
         \<and> vwap d = (if cumulative_volume st3 = 0 then typical_price c
                      else cumulative_pv st3 / cumulative_volume st3)
         \<and> vwap_history st3
             = deque_append (slope_lookback cfg)
                 (if vw_current_session_start st = Some s then vwap_history st else [])
                 (vwap d)
         \<and> current_vwap st3 = Some d
         \<and> vwap_calc_update cfg st c
             = (case update_pullback_tracking cfg st3 (close c) of
                  Inl e \<Rightarrow> (st3, Inl e) | Inr st4 \<Rightarrow> (st4, Inr d))"
proof -
  define st1 where "st1 = (if vw_current_session_start st \<noteq> Some s then reset_session st s else st)"
  define tp where "tp = typical_price c"
  define st2 where "st2 = st1\<lparr>cumulative_pv := cumulative_pv st1 + tp * volume c,
                        cumulative_volume := cumulative_volume st1 + volume c,
                        cumulative_pv2 := cumulative_pv2 st1 + tp ^ 2 * volume c\<rparr>"
  define vw where "vw = (if cumulative_volume st2 = 0 then tp
                    else cumulative_pv st2 / cumulative_volume st2)"
  define variance where "variance = (if cumulative_volume st2 = 0 then 0
                          else cumulative_pv2 st2 / cumulative_volume st2 - vw ^ 2)"
  define std_dev where "std_dev = sqrt (max 0 variance)"
  define d where "d = \<lparr>vd_timestamp = timestamp c,
                   vwap = vw,
                   upper_1std = vw + std_dev,
                   lower_1std = vw - std_dev,
                   upper_2std = vw + 2 * std_dev,
                   lower_2std = vw - 2 * std_dev,
                   cumulative_vp = cumulative_pv st2,
                   vd_cumulative_volume = cumulative_volume st2,
                   slope = vwap_calculate_slope st2\<rparr>"
  define st3 where "st3 = st2\<lparr>current_vwap := Some d,
                        vwap_history := deque_append (slope_lookback cfg) (vwap_history st2) vw\<rparr>"
  have u: "vwap_calc_update cfg st c
             = (case update_pullback_tracking cfg st3 (close c) of
                  Inl e \<Rightarrow> (st3, Inl e) | Inr st4 \<Rightarrow> (st4, Inr d))"
    unfolding vwap_calc_update_def g sum.case Let_def
    unfolding st1_def[symmetric] tp_def[symmetric]
    unfolding st2_def[symmetric]
    unfolding vw_def[symmetric]
    unfolding variance_def[symmetric]
    unfolding std_dev_def[symmetric]
    unfolding d_def[symmetric]
    unfolding st3_def[symmetric]
    by (rule refl)
  have s1: "vw_current_session_start st1 = Some s"
    "cumulative_pv st1 = (if vw_current_session_start st = Some s then cumulative_pv st else 0)"
    "cumulative_volume st1 = (if vw_current_session_start st = Some s then cumulative_volume st else 0)"
    "cumulative_pv2 st1 = (if vw_current_session_start st = Some s then cumulative_pv2 st else 0)"
    "vwap_history st1 = (if vw_current_session_start st = Some s then vwap_history st else [])"
    by (simp_all add: st1_def reset_session_def)
  have "vw_current_session_start st3 = Some s"
    and "cumulative_pv st3
             = (if vw_current_session_start st = Some s then cumulative_pv st else 0)
               + typical_price c * volume c"
    and "cumulative_volume st3
             = (if vw_current_session_start st = Some s then cumulative_volume st else 0)
               + volume c"
    and "cumulative_pv2 st3
             = (if vw_current_session_start st = Some s then cumulative_pv2 st else 0)
               + typical_price c ^ 2 * volume c"
    and "vwap d = (if cumulative_volume st3 = 0 then typical_price c
                      else cumulative_pv st3 / cumulative_volume st3)"
    and "vwap_history st3
             = deque_append (slope_lookback cfg)
                 (if vw_current_session_start st = Some s then vwap_history st else [])
                 (vwap d)"
    and "current_vwap st3 = Some d"
    using s1 by (simp_all add: st3_def st2_def d_def vw_def tp_def)
  with u show ?thesis by blast
qed

lemma vwap_calc_update_step:
  assumes g: "get_session_start (timestamp c) (session_reset_hour cfg) (session_reset_minute cfg)
                = Inr s"
  shows "vw_current_session_start (fst (vwap_calc_update cfg st c)) = Some s
       \<and> cumulative_pv (fst (vwap_calc_update cfg st c))
           = (if vw_current_session_start st = Some s then cumulative_pv st else 0)
             + typical_price c * volume c
       \<and> cumulative_volume (fst (vwap_calc_update cfg st c))
           = (if vw_current_session_start st = Some s then cumulative_volume st else 0)
             + volume c
       \<and> cumulative_pv2 (fst (vwap_calc_update cfg st c))
           = (if vw_current_session_start st = Some s then cumulative_pv2 st else 0)
             + typical_price c ^ 2 * volume c
       \<and> (\<forall>d. snd (vwap_calc_update cfg st c) = Inr d \<longrightarrow>
             vwap d = (if cumulative_volume (fst (vwap_calc_update cfg st c)) = 0 then typical_price c
                       else cumulative_pv (fst (vwap_calc_update cfg st c))
                              / cumulative_volume (fst (vwap_calc_update cfg st c))))"
proof -
  from vwap_calc_update_form[OF g, of st] obtain st3 d where
    f: "vw_current_session_start st3 = Some s"
       "cumulative_pv st3
             = (if vw_current_session_start st = Some s then cumulative_pv st else 0)
               + typical_price c * volume c"
       "cumulative_volume st3
             = (if vw_current_session_start st = Some s then cumulative_volume st else 0)
               + volume c"
       "cumulative_pv2 st3
             = (if vw_current_session_start st = Some s then cumulative_pv2 st else 0)
               + typical_price c ^ 2 * volume c"
       "vwap d = (if cumulative_volume st3 = 0 then typical_price c
                      else cumulative_pv st3 / cumulative_volume st3)"
    and u: "vwap_calc_update cfg st c
             = (case update_pullback_tracking cfg st3 (close c) of
                  Inl e \<Rightarrow> (st3, Inl e) | Inr st4 \<Rightarrow> (st4, Inr d))"
    by blast
  show ?thesis
  proof (cases "update_pullback_tracking cfg st3 (close c)")
    case (Inl e)
    then have "vwap_calc_update cfg st c = (st3, Inl e)" using u by simp
    then show ?thesis using f(1-4) by simp
  next
    case (Inr st4)
    then have r: "vwap_calc_update cfg st c = (st4, Inr d)" using u by simp
    from update_pullback_tracking_fields[OF Inr] f
    show ?thesis unfolding r by simp
  qed
qed

text \<open>Within one session the sums grow by each candle's contribution.\<close>

lemma vwap_run_in_session:
  assumes "\<forall>x \<in> set cs. get_session_start (timestamp x) (session_reset_hour cfg)
                            (session_reset_minute cfg) = Inr s"
    and "vw_current_session_start st = Some s"
  shows "vw_current_session_start (vwap_run cfg st cs) = Some s
       \<and> cumulative_pv (vwap_run cfg st cs)
           = cumulative_pv st + (\<Sum>x \<leftarrow> cs. typical_price x * volume x)
       \<and> cumulative_volume (vwap_run cfg st cs)
           = cumulative_volume st + (\<Sum>x \<leftarrow> cs. volume x)"
  using assms
proof (induction cs arbitrary: st)
  case Nil
  then show ?case by (simp add: vwap_run_def)
next
  case (Cons c cs)
  have g: "get_session_start (timestamp c) (session_reset_hour cfg) (session_reset_minute cfg) = Inr s"
    using Cons.prems(1) by simp
  note st = vwap_calc_update_step[OF g, of st]
  have run: "vwap_run cfg st (c # cs) = vwap_run cfg (fst (vwap_calc_update cfg st c)) cs"
    by (simp add: vwap_run_def)
  have "vw_current_session_start (fst (vwap_calc_update cfg st c)) = Some s" using st by blast
  from Cons.IH[OF _ this] Cons.prems(1)
  have ih: "vw_current_session_start (vwap_run cfg (fst (vwap_calc_update cfg st c)) cs) = Some s
       \<and> cumulative_pv (vwap_run cfg (fst (vwap_calc_update cfg st c)) cs)
           = cumulative_pv (fst (vwap_calc_update cfg st c)) + (\<Sum>x \<leftarrow> cs. typical_price x * volume x)
       \<and> cumulative_volume (vwap_run cfg (fst (vwap_calc_update cfg st c)) cs)
           = cumulative_volume (fst (vwap_calc_update cfg st c)) + (\<Sum>x \<leftarrow> cs. volume x)"
    by simp
  show ?case unfolding run using ih st Cons.prems(2) by simp
qed

text \<open>From a state of another session (or a fresh one) the first candle resets the sums.\<close>

lemma vwap_run_new_session:
  assumes "\<forall>x \<in> set cs. get_session_start (timestamp x) (session_reset_hour cfg)
                            (session_reset_minute cfg) = Inr s"
    and "vw_current_session_start st \<noteq> Some s" and "cs \<noteq> []"
  shows "vw_current_session_start (vwap_run cfg st cs) = Some s
       \<and> cumulative_pv (vwap_run cfg st cs) = (\<Sum>x \<leftarrow> cs. typical_price x * volume x)
       \<and> cumulative_volume (vwap_run cfg st cs) = (\<Sum>x \<leftarrow> cs. volume x)"
proof -
  obtain c rest where cs: "cs = c # rest" using assms(3) by (cases cs) auto
  have g: "get_session_start (timestamp c) (session_reset_hour cfg) (session_reset_minute cfg) = Inr s"
    using assms(1) cs by simp
  note st = vwap_calc_update_step[OF g, of st]
  have run: "vwap_run cfg st (c # rest) = vwap_run cfg (fst (vwap_calc_update cfg st c)) rest"
    by (simp add: vwap_run_def)
  have 1: "vw_current_session_start (fst (vwap_calc_update cfg st c)) = Some s" using st by blast
  have 2: "\<forall>x \<in> set rest. get_session_start (timestamp x) (session_reset_hour cfg)
                            (session_reset_minute cfg) = Inr s" using assms(1) cs by simp
  from vwap_run_in_session[OF 2 1] st assms(2)
  show ?thesis unfolding cs run by simp
qed

lemma update_pullback_tracking_returns:
  assumes "current_vwap st = Some d" and "vwap d \<noteq> 0"
    and "\<forall>v \<in> set (vwap_history st). v \<noteq> 0"
  shows "\<exists>st'. update_pullback_tracking cfg st p = Inr st'"
proof -
  have pb: "\<exists>b. is_pullback cfg st p None = Inr b"
    using assms(1,2) by (simp add: is_pullback_def)
  have rj: "\<exists>b. is_rejection cfg st p = Inr b"
  proof (cases "length (vwap_history st) < 2")
    case True
    then have "is_rejection cfg st p = Inr False" using assms(1) by (simp add: is_rejection_def)
    then show ?thesis by blast
  next
    case False
    then have "vwap_history st ! (length (vwap_history st) - 2) \<in> set (vwap_history st)"
      by simp
    then have "vwap_history st ! (length (vwap_history st) - 2) \<noteq> 0"
      using assms(3) by blast
    then show ?thesis using assms(1,2) False by (simp add: is_rejection_def Let_def)
  qed
  from pb rj show ?thesis
    using assms(1) unfolding update_pullback_tracking_def
    by (auto split: bool.splits)
qed

lemma set_deque_append: "set (deque_append n xs x) \<subseteq> insert x (set xs)"
proof -
  have "set (deque_append n xs x) \<subseteq> set (xs @ [x])"
    unfolding deque_append_def by (rule set_drop_subset)
  then show ?thesis by auto
qed

text \<open>
  With a positive typical price and a non-negative volume the update returns, and the
  facts that make the next update return are kept: positive VWAP history, non-negative
  sums, and a positive price-volume sum as soon as the volume sum is positive.
\<close>

lemma vwap_calc_update_returns:
  assumes g: "get_session_start (timestamp c) (session_reset_hour cfg) (session_reset_minute cfg)
                = Inr s"
    and pos: "0 < typical_price c" "0 \<le> volume c"
    and inv: "vw_current_session_start st = Some s \<longrightarrow>
                (\<forall>v \<in> set (vwap_history st). 0 < v) \<and> 0 \<le> cumulative_volume st
                \<and> 0 \<le> cumulative_pv st \<and> (0 < cumulative_volume st \<longrightarrow> 0 < cumulative_pv st)"
  shows "(\<exists>d. snd (vwap_calc_update cfg st c) = Inr d)
       \<and> (\<forall>v \<in> set (vwap_history (fst (vwap_calc_update cfg st c))). 0 < v)
       \<and> 0 \<le> cumulative_volume (fst (vwap_calc_update cfg st c))
       \<and> 0 \<le> cumulative_pv (fst (vwap_calc_update cfg st c))
       \<and> (0 < cumulative_volume (fst (vwap_calc_update cfg st c))
            \<longrightarrow> 0 < cumulative_pv (fst (vwap_calc_update cfg st c)))"
proof -
  define V where "V = (if vw_current_session_start st = Some s then cumulative_volume st else 0)"
  define PV where "PV = (if vw_current_session_start st = Some s then cumulative_pv st else 0)"
  define H where "H = (if vw_current_session_start st = Some s then vwap_history st else [])"
  have b: "0 \<le> V" "0 \<le> PV" "0 < V \<longrightarrow> 0 < PV" "\<forall>v \<in> set H. 0 < v"
    using inv by (auto simp: V_def PV_def H_def)
  from vwap_calc_update_form[OF g, of st] obtain st3 d where
    f: "cumulative_pv st3 = PV + typical_price c * volume c"
       "cumulative_volume st3 = V + volume c"
       "vwap d = (if cumulative_volume st3 = 0 then typical_price c
                      else cumulative_pv st3 / cumulative_volume st3)"
       "vwap_history st3 = deque_append (slope_lookback cfg) H (vwap d)"
       "current_vwap st3 = Some d"
    and u: "vwap_calc_update cfg st c
             = (case update_pullback_tracking cfg st3 (close c) of
                  Inl e \<Rightarrow> (st3, Inl e) | Inr st4 \<Rightarrow> (st4, Inr d))"
    unfolding V_def PV_def H_def by blast
  have tv: "0 \<le> typical_price c * volume c" using pos by simp
  have v3: "0 \<le> cumulative_volume st3" using f(2) b(1) pos(2) by simp
  have p3: "0 \<le> cumulative_pv st3" using f(1) b(2) tv by simp
  have pp: "0 < cumulative_volume st3 \<longrightarrow> 0 < cumulative_pv st3"
  proof
    assume "0 < cumulative_volume st3"
    then have "0 < V \<or> 0 < volume c" using f(2) b(1) pos(2) by linarith
    then show "0 < cumulative_pv st3"
    proof
      assume "0 < V"
      then show ?thesis using b(3) f(1) tv by simp
    next
      assume "0 < volume c"
      then have "0 < typical_price c * volume c" using pos(1) by simp
      then show ?thesis using b(2) f(1) by simp
    qed
  qed
  have vd: "0 < vwap d"
  proof (cases "cumulative_volume st3 = 0")
    case True
    then show ?thesis using f(3) pos(1) by simp
  next
    case False
    then have "0 < cumulative_volume st3" using v3 by simp
    then show ?thesis using f(3) pp False by simp
  qed
  have h3: "\<forall>v \<in> set (vwap_history st3). 0 < v"
    using set_deque_append[of "slope_lookback cfg" H "vwap d"] b(4) vd f(4) by auto
  then have "\<forall>v \<in> set (vwap_history st3). v \<noteq> 0" by fastforce
  from update_pullback_tracking_returns[OF f(5) _ this, of cfg "close c"] vd
  obtain st4 where t: "update_pullback_tracking cfg st3 (close c) = Inr st4" by auto
  then have r: "vwap_calc_update cfg st c = (st4, Inr d)" using u by simp
  from update_pullback_tracking_fields[OF t] h3 v3 p3 pp
  show ?thesis unfolding r by simp
qed

lemma vwap_run_returns_invariant:
  assumes "\<forall>x \<in> set cs. get_session_start (timestamp x) (session_reset_hour cfg)
                            (session_reset_minute cfg) = Inr s
                          \<and> 0 < typical_price x \<and> 0 \<le> volume x"
    and "vw_current_session_start st = Some s \<longrightarrow>
                (\<forall>v \<in> set (vwap_history st). 0 < v) \<and> 0 \<le> cumulative_volume st
                \<and> 0 \<le> cumulative_pv st \<and> (0 < cumulative_volume st \<longrightarrow> 0 < cumulative_pv st)"
  shows "vw_current_session_start (vwap_run cfg st cs) = Some s \<longrightarrow>
                (\<forall>v \<in> set (vwap_history (vwap_run cfg st cs)). 0 < v)
                \<and> 0 \<le> cumulative_volume (vwap_run cfg st cs)
                \<and> 0 \<le> cumulative_pv (vwap_run cfg st cs)
                \<and> (0 < cumulative_volume (vwap_run cfg st cs)
                      \<longrightarrow> 0 < cumulative_pv (vwap_run cfg st cs))"
  using assms
proof (induction cs arbitrary: st)
  case Nil
  then show ?case by (simp add: vwap_run_def)
next
  case (Cons c cs)
  have run: "vwap_run cfg st (c # cs) = vwap_run cfg (fst (vwap_calc_update cfg st c)) cs"
    by (simp add: vwap_run_def)
  have c: "get_session_start (timestamp c) (session_reset_hour cfg) (session_reset_minute cfg) = Inr s"
    "0 < typical_price c" "0 \<le> volume c"
    using Cons.prems(1) by simp_all
  from vwap_calc_update_returns[OF c Cons.prems(2)]
  have "vw_current_session_start (fst (vwap_calc_update cfg st c)) = Some s \<longrightarrow>
                (\<forall>v \<in> set (vwap_history (fst (vwap_calc_update cfg st c))). 0 < v)
                \<and> 0 \<le> cumulative_volume (fst (vwap_calc_update cfg st c))
                \<and> 0 \<le> cumulative_pv (fst (vwap_calc_update cfg st c))
                \<and> (0 < cumulative_volume (fst (vwap_calc_update cfg st c))
                      \<longrightarrow> 0 < cumulative_pv (fst (vwap_calc_update cfg st c)))"
    by blast
  from Cons.IH[OF _ this] Cons.prems(1) show ?case unfolding run by simp
qed

text \<open>
  C2. Let the candles \<open>pre @ [c]\<close> all fall in session \<open>s\<close>, fed to a calculator that is
  not yet in that session. Then after the update for \<open>c\<close> the cumulative sums are
  \<open>\<Sum> typical_price \<times> volume\<close> and \<open>\<Sum> volume\<close> over these candles; a returned snapshot has
  \<open>vwap\<close> equal to the quotient of the two, or to the typical price of \<open>c\<close> when the
  volume sum is zero; and the update does return when every candle has a positive typical
  price and a non-negative volume. For any calculator state, the update for \<open>c\<close> starts
  the three sums from zero exactly when the state is not in the session of \<open>c\<close>, and
  otherwise adds to them.
\<close>

theorem vwap_is_session_volume_weighted_mean:
  assumes sess: "\<forall>x \<in> set (pre @ [c]).
                   get_session_start (timestamp x) (session_reset_hour cfg)
                     (session_reset_minute cfg) = Inr s"
    and new: "vw_current_session_start st \<noteq> Some s"
  shows "cumulative_pv (fst (vwap_calc_update cfg (vwap_run cfg st pre) c))
           = (\<Sum>x \<leftarrow> pre @ [c]. typical_price x * volume x)
       \<and> cumulative_volume (fst (vwap_calc_update cfg (vwap_run cfg st pre) c))
           = (\<Sum>x \<leftarrow> pre @ [c]. volume x)
       \<and> (\<forall>d. snd (vwap_calc_update cfg (vwap_run cfg st pre) c) = Inr d \<longrightarrow>
             vwap d = (if (\<Sum>x \<leftarrow> pre @ [c]. volume x) = 0 then typical_price c
                       else (\<Sum>x \<leftarrow> pre @ [c]. typical_price x * volume x)
                            / (\<Sum>x \<leftarrow> pre @ [c]. volume x)))
       \<and> ((\<forall>x \<in> set (pre @ [c]). 0 < typical_price x \<and> 0 \<le> volume x) \<longrightarrow>
             (\<exists>d. snd (vwap_calc_update cfg (vwap_run cfg st pre) c) = Inr d))
       \<and> (\<forall>st0. cumulative_pv (fst (vwap_calc_update cfg st0 c))
                   = (if vw_current_session_start st0 = Some s then cumulative_pv st0 else 0)
                     + typical_price c * volume c
                \<and> cumulative_volume (fst (vwap_calc_update cfg st0 c))
                   = (if vw_current_session_start st0 = Some s then cumulative_volume st0 else 0)
                     + volume c
                \<and> cumulative_pv2 (fst (vwap_calc_update cfg st0 c))
                   = (if vw_current_session_start st0 = Some s then cumulative_pv2 st0 else 0)
                     + typical_price c ^ 2 * volume c)"
proof -
  let ?st = "vwap_run cfg st pre"
  have g: "get_session_start (timestamp c) (session_reset_hour cfg) (session_reset_minute cfg) = Inr s"
    using sess by simp
  have gp: "\<forall>x \<in> set pre. get_session_start (timestamp x) (session_reset_hour cfg)
                            (session_reset_minute cfg) = Inr s"
    using sess by simp
  note stp = vwap_calc_update_step[OF g]
  have sums: "cumulative_pv (fst (vwap_calc_update cfg ?st c))
           = (\<Sum>x \<leftarrow> pre @ [c]. typical_price x * volume x)
       \<and> cumulative_volume (fst (vwap_calc_update cfg ?st c))
           = (\<Sum>x \<leftarrow> pre @ [c]. volume x)"
  proof (cases "pre = []")
    case True
    then have "?st = st" by (simp add: vwap_run_def)
    then show ?thesis using stp[of st] new True by simp
  next
    case False
    from vwap_run_new_session[OF gp new False] stp[of ?st]
    show ?thesis by simp
  qed
  have snap: "\<forall>d. snd (vwap_calc_update cfg ?st c) = Inr d \<longrightarrow>
             vwap d = (if (\<Sum>x \<leftarrow> pre @ [c]. volume x) = 0 then typical_price c
                       else (\<Sum>x \<leftarrow> pre @ [c]. typical_price x * volume x)
                            / (\<Sum>x \<leftarrow> pre @ [c]. volume x))"
    using stp[of ?st] sums by metis
  have ret: "(\<forall>x \<in> set (pre @ [c]). 0 < typical_price x \<and> 0 \<le> volume x) \<longrightarrow>
             (\<exists>d. snd (vwap_calc_update cfg ?st c) = Inr d)"
  proof
    assume pos: "\<forall>x \<in> set (pre @ [c]). 0 < typical_price x \<and> 0 \<le> volume x"
    have 1: "\<forall>x \<in> set pre. get_session_start (timestamp x) (session_reset_hour cfg)
                            (session_reset_minute cfg) = Inr s
                          \<and> 0 < typical_price x \<and> 0 \<le> volume x"
      using gp pos by simp
    have 2: "vw_current_session_start st = Some s \<longrightarrow>
                (\<forall>v \<in> set (vwap_history st). 0 < v) \<and> 0 \<le> cumulative_volume st
                \<and> 0 \<le> cumulative_pv st \<and> (0 < cumulative_volume st \<longrightarrow> 0 < cumulative_pv st)"
      using new by simp
    have c: "0 < typical_price c" "0 \<le> volume c" using pos by simp_all
    from vwap_calc_update_returns[OF g c vwap_run_returns_invariant[OF 1 2]]
    show "\<exists>d. snd (vwap_calc_update cfg ?st c) = Inr d" by blast
  qed
  have rst: "\<forall>st0. cumulative_pv (fst (vwap_calc_update cfg st0 c))
                   = (if vw_current_session_start st0 = Some s then cumulative_pv st0 else 0)
                     + typical_price c * volume c
                \<and> cumulative_volume (fst (vwap_calc_update cfg st0 c))
                   = (if vw_current_session_start st0 = Some s then cumulative_volume st0 else 0)
                     + volume c
                \<and> cumulative_pv2 (fst (vwap_calc_update cfg st0 c))
                   = (if vw_current_session_start st0 = Some s then cumulative_pv2 st0 else 0)
                     + typical_price c ^ 2 * volume c"
    using stp by blast
  from sums snap ret rst show ?thesis by blast
qed

lemma ex_sessions:
  "\<forall>x \<in> set ([ex_candle_1] @ [ex_candle_2]).
      get_session_start (timestamp x) (session_reset_hour ex_vwap_config)
        (session_reset_minute ex_vwap_config) = Inr 0"
  by (simp add: ex_candle_1_def ex_candle_2_def ex_vwap_config_def get_session_start_def)

theorem vwap_is_session_volume_weighted_mean_witness:
  "get_session_start (timestamp ex_candle_1) (session_reset_hour ex_vwap_config)
        (session_reset_minute ex_vwap_config) = Inr 0
   \<and> get_session_start (timestamp ex_candle_2) (session_reset_hour ex_vwap_config)
        (session_reset_minute ex_vwap_config) = Inr 0
   \<and> vw_current_session_start vwap_init \<noteq> Some 0
   \<and> cumulative_pv (fst (vwap_calc_update ex_vwap_config
                            (vwap_run ex_vwap_config vwap_init [ex_candle_1]) ex_candle_2)) = 404
   \<and> cumulative_volume (fst (vwap_calc_update ex_vwap_config
                            (vwap_run ex_vwap_config vwap_init [ex_candle_1]) ex_candle_2)) = 4
   \<and> (\<exists>d. snd (vwap_calc_update ex_vwap_config
                   (vwap_run ex_vwap_config vwap_init [ex_candle_1]) ex_candle_2) = Inr d
          \<and> vwap d = 101)"
proof -
  have new: "vw_current_session_start vwap_init \<noteq> Some 0" by (simp add: vwap_init_def)
  have pos: "\<forall>x \<in> set ([ex_candle_1] @ [ex_candle_2]). 0 < typical_price x \<and> 0 \<le> volume x"
    by (simp add: ex_candle_1_def ex_candle_2_def typical_price_def)
  have pv: "(\<Sum>x \<leftarrow> [ex_candle_1] @ [ex_candle_2]. typical_price x * volume x) = 404"
    and v: "(\<Sum>x \<leftarrow> [ex_candle_1] @ [ex_candle_2]. volume x) = 4"
    by (simp_all add: ex_candle_1_def ex_candle_2_def typical_price_def)
  note t = vwap_is_session_volume_weighted_mean[OF ex_sessions new, unfolded pv v]
  from t pos obtain d where d: "snd (vwap_calc_update ex_vwap_config
                   (vwap_run ex_vwap_config vwap_init [ex_candle_1]) ex_candle_2) = Inr d"
    by blast
  with t have "vwap d = 101" by simp
  moreover have "get_session_start (timestamp ex_candle_1) (session_reset_hour ex_vwap_config)
        (session_reset_minute ex_vwap_config) = Inr 0"
    and "get_session_start (timestamp ex_candle_2) (session_reset_hour ex_vwap_config)
        (session_reset_minute ex_vwap_config) = Inr 0"
    using ex_sessions by simp_all
  ultimately show ?thesis using t d new by blast
qed

section \<open>Properties of the order-flow analyzer\<close>

lemma update_trend_fields:
  "cumulative_delta (update_trend cfg st) = cumulative_delta st"
  "delta_history (update_trend cfg st) = delta_history st"
  "current_delta (update_trend cfg st) = current_delta st"
  "buy_volume_current (update_trend cfg st) = buy_volume_current st"
  "sell_volume_current (update_trend cfg st) = sell_volume_current st"
  "volume_history (update_trend cfg st) = volume_history st"
  "price_history (update_trend cfg st) = price_history st"
  "absorption_detected (update_trend cfg st) = absorption_detected st"
  by (simp_all add: update_trend_def Let_def)

lemma update_consecutive_bars_fields:
  "cumulative_delta (update_consecutive_bars cfg st) = cumulative_delta st"
  "delta_history (update_consecutive_bars cfg st) = delta_history st"
  "current_delta (update_consecutive_bars cfg st) = current_delta st"
  "buy_volume_current (update_consecutive_bars cfg st) = buy_volume_current st"
  "sell_volume_current (update_consecutive_bars cfg st) = sell_volume_current st"
  "volume_history (update_consecutive_bars cfg st) = volume_history st"
  "price_history (update_consecutive_bars cfg st) = price_history st"
  "absorption_detected (update_consecutive_bars cfg st) = absorption_detected st"
  by (simp_all add: update_consecutive_bars_def)

lemma check_absorption_fields:
  "cumulative_delta (fst (check_absorption cfg st p)) = cumulative_delta st"
  "delta_history (fst (check_absorption cfg st p)) = delta_history st"
  "current_delta (fst (check_absorption cfg st p)) = current_delta st"
  "buy_volume_current (fst (check_absorption cfg st p)) = buy_volume_current st"
  "sell_volume_current (fst (check_absorption cfg st p)) = sell_volume_current st"
  by (simp_all add: check_absorption_def Let_def)

text \<open>What \<^verbatim>\<open>finalize_bar\<close> does to the running sum and the delta history, raise or not.\<close>

lemma finalize_bar_delta:
  "cumulative_delta (fst (finalize_bar cfg st p)) = cumulative_delta st + current_delta st"
  "delta_history (fst (finalize_bar cfg st p))
     = deque_append 100 (delta_history st) (current_delta st)"
proof -
  define st2 where "st2 = st\<lparr>cumulative_delta := cumulative_delta st + current_delta st,
       delta_history := deque_append 100 (delta_history st) (current_delta st),
       cvd_history := deque_append 100 (cvd_history st) (cumulative_delta st + current_delta st),
       volume_history := deque_append (absorption_lookback cfg) (volume_history st)
                        (buy_volume_current st + sell_volume_current st),
       price_history := deque_append (absorption_lookback cfg) (price_history st) p\<rparr>"
  define st3 where "st3 = update_consecutive_bars cfg (update_trend cfg st2)"
  have f: "finalize_bar cfg st p =
      (case check_absorption cfg st3 p of
           (st4, Inl e) \<Rightarrow> (st4, Inl e)
         | (st4, Inr u) \<Rightarrow>
             (st4\<lparr>current_delta := 0, buy_volume_current := 0, sell_volume_current := 0\<rparr>,
              Inr ()))"
    by (simp add: finalize_bar_def Let_def st2_def st3_def)
  have 3: "cumulative_delta st3 = cumulative_delta st + current_delta st"
    "delta_history st3 = deque_append 100 (delta_history st) (current_delta st)"
    by (simp_all add: st3_def update_consecutive_bars_fields update_trend_fields st2_def)
  obtain st4 r where c: "check_absorption cfg st3 p = (st4, r)"
    by (cases "check_absorption cfg st3 p")
  have 4: "cumulative_delta st4 = cumulative_delta st3" "delta_history st4 = delta_history st3"
    using check_absorption_fields(1,2)[of cfg st3 p] c by simp_all
  show "cumulative_delta (fst (finalize_bar cfg st p)) = cumulative_delta st + current_delta st"
    "delta_history (fst (finalize_bar cfg st p))
     = deque_append 100 (delta_history st) (current_delta st)"
    unfolding f c using 3 4 by (cases r; simp)+
qed

lemma deque_append_drop:
  "deque_append n (drop (length acc - n) acc) x = drop (length (acc @ [x]) - n) (acc @ [x])"
  unfolding deque_append_def by (cases "length acc \<le> n") (auto simp: Suc_diff_le)

lemma of_run_cumulative_delta:
  assumes "cumulative_delta st = sum_list acc"
    and "delta_history st = drop (length acc - 100) acc"
  shows "cumulative_delta (of_run cfg st calls) = sum_list (bar_deltas cfg st acc calls)
       \<and> delta_history (of_run cfg st calls)
           = drop (length (bar_deltas cfg st acc calls) - 100) (bar_deltas cfg st acc calls)"
  using assms
proof (induction calls arbitrary: st acc)
  case Nil
  then show ?case by (simp add: of_run_def)
next
  case (Cons call calls)
  have run: "of_run cfg st (call # calls) = of_run cfg (of_step cfg st call) calls"
    by (simp add: of_run_def)
  show ?case
  proof (cases call)
    case (FinalizeBar p)
    have 1: "cumulative_delta (of_step cfg st call) = sum_list (acc @ [current_delta st])"
      using Cons.prems(1) FinalizeBar by (simp add: finalize_bar_delta)
    have 2: "delta_history (of_step cfg st call)
               = drop (length (acc @ [current_delta st]) - 100) (acc @ [current_delta st])"
      using Cons.prems(2) FinalizeBar deque_append_drop[of 100 acc "current_delta st"]
      by (simp add: finalize_bar_delta)
    show ?thesis unfolding run using Cons.IH[OF 1 2] FinalizeBar by simp
  next
    case Reset
    have 1: "cumulative_delta (of_step cfg st call) = sum_list []"
      and 2: "delta_history (of_step cfg st call) = drop (length ([]::real list) - 100) []"
      using Reset by (simp_all add: of_reset_def)
    show ?thesis unfolding run using Cons.IH[OF 1 2] Reset by simp
  next
    case (UpdateFromTrades ts)
    have 1: "cumulative_delta (of_step cfg st call) = sum_list acc"
      and 2: "delta_history (of_step cfg st call) = drop (length acc - 100) acc"
      using Cons.prems UpdateFromTrades by (simp_all add: update_from_trades_def Let_def)
    show ?thesis unfolding run using Cons.IH[OF 1 2] UpdateFromTrades by simp
  next
    case (UpdateFromOrderbook ob)
    have 1: "cumulative_delta (of_step cfg st call) = sum_list acc"
      and 2: "delta_history (of_step cfg st call) = drop (length acc - 100) acc"
      using Cons.prems UpdateFromOrderbook
      by (simp_all add: update_from_orderbook_def Let_def split: option.splits)
    show ?thesis unfolding run using Cons.IH[OF 1 2] UpdateFromOrderbook by simp
  next
    case (UpdateOI v)
    have 1: "cumulative_delta (of_step cfg st call) = sum_list acc"
      and 2: "delta_history (of_step cfg st call) = drop (length acc - 100) acc"
      using Cons.prems UpdateOI by (simp_all add: update_oi_def)
    show ?thesis unfolding run using Cons.IH[OF 1 2] UpdateOI by simp
  qed
qed

text \<open>
  C6. After any sequence of calls on a fresh analyzer, \<^verbatim>\<open>cumulative_delta\<close> is the sum
  of the per-bar deltas of the bars finalized since the last \<^verbatim>\<open>reset\<close>, the delta
  history holds the last 100 of them, and \<^verbatim>\<open>reset\<close> puts the sum back to zero.
\<close>

theorem cumulative_delta_is_sum_of_bar_deltas:
  "cumulative_delta (of_run cfg of_init calls) = sum_list (bar_deltas cfg of_init [] calls)
   \<and> delta_history (of_run cfg of_init calls)
       = drop (length (bar_deltas cfg of_init [] calls) - 100) (bar_deltas cfg of_init [] calls)
   \<and> cumulative_delta (of_reset st) = 0
   \<and> bar_deltas cfg st acc (calls @ [Reset]) = []
   \<and> bar_deltas cfg st acc (calls @ [FinalizeBar p])
       = bar_deltas cfg st acc calls @ [current_delta (of_run cfg st calls)]"
proof -
  have a: "cumulative_delta (of_run cfg of_init calls) = sum_list (bar_deltas cfg of_init [] calls)
   \<and> delta_history (of_run cfg of_init calls)
       = drop (length (bar_deltas cfg of_init [] calls) - 100) (bar_deltas cfg of_init [] calls)"
    by (rule of_run_cumulative_delta) (simp_all add: of_init_def)
  have b: "bar_deltas cfg st acc (calls @ [Reset]) = []"
    by (induction cfg st acc calls rule: bar_deltas.induct) simp_all
  have c: "bar_deltas cfg st acc (calls @ [FinalizeBar p])
       = bar_deltas cfg st acc calls @ [current_delta (of_run cfg st calls)]"
    by (induction cfg st acc calls rule: bar_deltas.induct) (simp_all add: of_run_def)
  from a b c show ?thesis by (simp add: of_reset_def)
qed

lemma length_deque_append: "length (deque_append n xs x) = min n (Suc (length xs))"
  by (simp add: deque_append_def)

text \<open>
  C7 (amended). For a \<^verbatim>\<open>finalize_bar\<close> call whose volume window is full and whose price
  history holds a prior bar with a non-zero price, the call returns and sets
  \<^verbatim>\<open>absorption_detected\<close> to true exactly when the latest bar's volume is at least the
  window's average volume times the multiplier and the absolute percent change from the
  prior bar's price is at most the tolerance; otherwise it sets it to false.
\<close>

theorem absorption_flag_after_finalize:
  assumes vh: "vh = deque_append (absorption_lookback cfg) (volume_history st)
                      (buy_volume_current st + sell_volume_current st)"
    and ph: "ph = deque_append (absorption_lookback cfg) (price_history st) p"
    and full: "absorption_lookback cfg \<le> length vh"
    and prior: "2 \<le> length ph"
    and nz: "ph ! (length ph - 2) \<noteq> 0"
  shows "snd (finalize_bar cfg st p) = Inr ()
       \<and> absorption_detected (fst (finalize_bar cfg st p))
           = (sum_list vh / real (length vh) * absorption_volume_multiplier cfg \<le> last vh
              \<and> \<bar>(p - ph ! (length ph - 2)) / (ph ! (length ph - 2))\<bar> * 100
                  \<le> absorption_price_tolerance cfg)"
proof -
  define st2 where "st2 = st\<lparr>cumulative_delta := cumulative_delta st + current_delta st,
       delta_history := deque_append 100 (delta_history st) (current_delta st),
       cvd_history := deque_append 100 (cvd_history st) (cumulative_delta st + current_delta st),
       volume_history := vh,
       price_history := ph\<rparr>"
  define st3 where "st3 = update_consecutive_bars cfg (update_trend cfg st2)"
  have f: "finalize_bar cfg st p =
      (case check_absorption cfg st3 p of
           (st4, Inl e) \<Rightarrow> (st4, Inl e)
         | (st4, Inr u) \<Rightarrow>
             (st4\<lparr>current_delta := 0, buy_volume_current := 0, sell_volume_current := 0\<rparr>,
              Inr ()))"
    by (simp add: finalize_bar_def Let_def st2_def st3_def vh ph)
  have h: "volume_history st3 = vh" "price_history st3 = ph"
    by (simp_all add: st3_def update_consecutive_bars_fields update_trend_fields st2_def)
  have "2 \<le> absorption_lookback cfg"
    using prior unfolding ph length_deque_append by simp
  then have ne: "vh \<noteq> []" using full by auto
  have c: "check_absorption cfg st3 p =
     (st3\<lparr>absorption_detected :=
             (sum_list vh / real (length vh) * absorption_volume_multiplier cfg \<le> last vh
              \<and> \<bar>(p - ph ! (length ph - 2)) / (ph ! (length ph - 2))\<bar> * 100
                  \<le> absorption_price_tolerance cfg),
          absorption_price :=
             (if sum_list vh / real (length vh) * absorption_volume_multiplier cfg \<le> last vh
              \<and> \<bar>(p - ph ! (length ph - 2)) / (ph ! (length ph - 2))\<bar> * 100
                  \<le> absorption_price_tolerance cfg then Some p else absorption_price st3),
          absorption_volume :=
             (if sum_list vh / real (length vh) * absorption_volume_multiplier cfg \<le> last vh
              \<and> \<bar>(p - ph ! (length ph - 2)) / (ph ! (length ph - 2))\<bar> * 100
                  \<le> absorption_price_tolerance cfg then last vh else absorption_volume st3)\<rparr>,
      Inr ())"
    using full prior nz ne unfolding check_absorption_def h Let_def
    by (auto simp: not_less not_le)
  show ?thesis unfolding f c by simp
qed

theorem absorption_flag_after_finalize_witness:
  "[1, 3 :: real] = deque_append (absorption_lookback ex_of_config) [1] (3 + 0)
   \<and> [100, 100 :: real] = deque_append (absorption_lookback ex_of_config) [100] 100
   \<and> absorption_lookback ex_of_config \<le> length [1, 3 :: real]
   \<and> 2 \<le> length [100, 100 :: real]
   \<and> [100, 100 :: real] ! (length [100, 100 :: real] - 2) \<noteq> 0
   \<and> snd (finalize_bar ex_of_config
            (of_init\<lparr>buy_volume_current := 3, current_delta := 3,
                      volume_history := [1], price_history := [100]\<rparr>) 100) = Inr ()
   \<and> absorption_detected (fst (finalize_bar ex_of_config
            (of_init\<lparr>buy_volume_current := 3, current_delta := 3,
                      volume_history := [1], price_history := [100]\<rparr>) 100))"
proof -
  have 1: "[1, 3] = deque_append (absorption_lookback ex_of_config)
             (volume_history (of_init\<lparr>buy_volume_current := 3, current_delta := 3,
                      volume_history := [1], price_history := [100]\<rparr>))
             (buy_volume_current (of_init\<lparr>buy_volume_current := 3, current_delta := 3,
                      volume_history := [1], price_history := [100]\<rparr>)
              + sell_volume_current (of_init\<lparr>buy_volume_current := 3, current_delta := 3,
                      volume_history := [1], price_history := [100]\<rparr>))"
    and 2: "[100, 100] = deque_append (absorption_lookback ex_of_config)
             (price_history (of_init\<lparr>buy_volume_current := 3, current_delta := 3,
                      volume_history := [1], price_history := [100]\<rparr>)) 100"
    and 3: "absorption_lookback ex_of_config \<le> length [1, 3 :: real]"
    and 4: "2 \<le> length [100, 100 :: real]"
    and 5: "[100, 100 :: real] ! (length [100, 100 :: real] - 2) \<noteq> 0"
    by (simp_all add: ex_of_config_def deque_append_def of_init_def)
  from absorption_flag_after_finalize[OF 1 2 3 4 5]
  show ?thesis by (simp add: ex_of_config_def of_init_def deque_append_def)
qed

text \<open>
  C7 as stated fails in two ways. Two bars of volume 1 and 3 with multiplier 1.5 make the
  latest volume equal to, not greater than, average times multiplier, and absorption is
  flagged. And when the prior bar's price is 0 the call raises and the flag keeps its old
  value (here true) instead of being set to false.
\<close>

theorem absorption_strictly_greater_counterexample:
  "volume_history (of_run ex_of_config of_init
      [UpdateFromTrades [ex_trade 1 False], FinalizeBar 100,
       UpdateFromTrades [ex_trade 3 False], FinalizeBar 100]) = [1, 3]
   \<and> \<not> (sum_list [1, 3] / 2 * absorption_volume_multiplier ex_of_config < (3::real))
   \<and> absorption_detected (of_run ex_of_config of_init
      [UpdateFromTrades [ex_trade 1 False], FinalizeBar 100,
       UpdateFromTrades [ex_trade 3 False], FinalizeBar 100])
   \<and> finalize_bar ex_of_config
        (of_init\<lparr>volume_history := [0], price_history := [0], absorption_detected := True\<rparr>) 100
      = (of_init\<lparr>volume_history := [0, 0], price_history := [0, 100],
                   absorption_detected := True, delta_history := [0], cvd_history := [0]\<rparr>,
         Inl ZeroDivisionError)"
  by (simp add: of_run_def finalize_bar_def check_absorption_def update_trend_def
      update_consecutive_bars_def is_delta_bullish_def is_delta_bearish_def
      update_from_trades_def is_buy_def ex_trade_def ex_of_config_def of_init_def
      deque_append_def Let_def)

text \<open>
  C8 fails on the code. After three trades (buy 0.1, sell 0.2, buy 0.15) and
  \<^verbatim>\<open>finalize_bar\<close>, the snapshot of \<^verbatim>\<open>get_metrics\<close> reports the finalized bar's delta
  0.05 next to buy and sell volumes that \<^verbatim>\<open>finalize_bar\<close> has already reset to 0.
  Before the finalize call the snapshot has the volumes of the open bar with the delta of
  the previous bar, here 0.
\<close>

theorem get_metrics_delta_not_buy_minus_sell:
  "delta (get_metrics (of_run ex_of_config of_init
      [UpdateFromTrades [ex_trade (1 / 10) False, ex_trade (2 / 10) True,
                         ex_trade (15 / 100) False],
       FinalizeBar 100]) 0) = 5 / 100
   \<and> buy_volume (get_metrics (of_run ex_of_config of_init
      [UpdateFromTrades [ex_trade (1 / 10) False, ex_trade (2 / 10) True,
                         ex_trade (15 / 100) False],
       FinalizeBar 100]) 0) = 0
   \<and> sell_volume (get_metrics (of_run ex_of_config of_init
      [UpdateFromTrades [ex_trade (1 / 10) False, ex_trade (2 / 10) True,
                         ex_trade (15 / 100) False],
       FinalizeBar 100]) 0) = 0
   \<and> delta (get_metrics (of_run ex_of_config of_init
      [UpdateFromTrades [ex_trade (1 / 10) False, ex_trade (2 / 10) True,
                         ex_trade (15 / 100) False]]) 0) = 0
   \<and> buy_volume (get_metrics (of_run ex_of_config of_init
      [UpdateFromTrades [ex_trade (1 / 10) False, ex_trade (2 / 10) True,
                         ex_trade (15 / 100) False]]) 0) = 25 / 100
   \<and> sell_volume (get_metrics (of_run ex_of_config of_init
      [UpdateFromTrades [ex_trade (1 / 10) False, ex_trade (2 / 10) True,
                         ex_trade (15 / 100) False]]) 0) = 2 / 10"
  by (simp add: of_run_def finalize_bar_def check_absorption_def update_trend_def
      update_consecutive_bars_def is_delta_bullish_def is_delta_bearish_def
      update_from_trades_def is_buy_def ex_trade_def ex_of_config_def of_init_def
      deque_append_def get_metrics_def Let_def)

section \<open>Division guards\<close>

text \<open>
  C10 fails on the code: three of the percentage computations divide without a guard.
  A candle with all prices 0 makes the VWAP 0, and \<^verbatim>\<open>VWAPCalculator.update\<close> itself
  raises in its pullback tracking; \<^verbatim>\<open>is_pullback\<close> on that calculator raises;
  \<^verbatim>\<open>is_pullback_zone\<close> on a snapshot with VWAP 0 raises, and with it
  \<^verbatim>\<open>check_signals\<close>; \<^verbatim>\<open>finalize_bar\<close> raises in the absorption check when the prior
  bar's price is 0.
\<close>

theorem unguarded_divisions_raise:
  "snd (vwap_calc_update ex_vwap_config vwap_init
          \<lparr>timestamp = 0, open_px = 0, high = 0, low = 0, close = 0, volume = 1\<rparr>)
     = Inl ZeroDivisionError
   \<and> is_pullback ex_vwap_config
         (fst (vwap_calc_update ex_vwap_config vwap_init
                 \<lparr>timestamp = 0, open_px = 0, high = 0, low = 0, close = 0, volume = 1\<rparr>))
         100 None
       = Inl ZeroDivisionError
   \<and> is_pullback_zone (ex_vwap_data\<lparr>vwap := 0\<rparr>) 100 (1 / 1000) = Inl ZeroDivisionError
   \<and> snd (check_signals ex_signal_config (engine_init ''BTCUSDT'') 0 100 (Some ex_profile)
            (Some VAH_BREAKOUT) (Some (ex_vwap_data\<lparr>vwap := 0\<rparr>)) (Some ex_metrics_bullish))
       = Inl ZeroDivisionError
   \<and> snd (finalize_bar ex_of_config (of_run ex_of_config of_init [FinalizeBar 0]) 100)
       = Inl ZeroDivisionError"
proof -
  have 1: "vwap_calc_update ex_vwap_config vwap_init
          \<lparr>timestamp = 0, open_px = 0, high = 0, low = 0, close = 0, volume = 1\<rparr>
     = (\<lparr>vw_current_session_start = Some 0, cumulative_pv = 0, cumulative_volume = 1,
         cumulative_pv2 = 0,
         current_vwap = Some \<lparr>vd_timestamp = 0, vwap = 0, upper_1std = 0, lower_1std = 0,
                               upper_2std = 0, lower_2std = 0, cumulative_vp = 0,
                               vd_cumulative_volume = 1, slope = 0\<rparr>,
         vwap_history = [0], consecutive_pullback_bars = 0,
         consecutive_rejection_bars = 0\<rparr>, Inl ZeroDivisionError)"
    by (simp add: vwap_calc_update_def ex_vwap_config_def vwap_init_def get_session_start_def
        reset_session_def typical_price_def vwap_calculate_slope_def deque_append_def
        update_pullback_tracking_def is_pullback_def Let_def)
  have 2: "is_pullback_zone (ex_vwap_data\<lparr>vwap := 0\<rparr>) 100 (1 / 1000) = Inl ZeroDivisionError"
    by (simp add: is_pullback_zone_def)
  have 3: "snd (check_signals ex_signal_config (engine_init ''BTCUSDT'') 0 100 (Some ex_profile)
            (Some VAH_BREAKOUT) (Some (ex_vwap_data\<lparr>vwap := 0\<rparr>)) (Some ex_metrics_bullish))
       = Inl ZeroDivisionError"
    by (simp add: ex_signal_config_def ex_profile_def ex_vwap_data_def ex_metrics_def
        ex_metrics_bullish_def engine_eval)
  have 4: "snd (finalize_bar ex_of_config (of_run ex_of_config of_init [FinalizeBar 0]) 100)
       = Inl ZeroDivisionError"
    by (simp add: of_run_def finalize_bar_def check_absorption_def update_trend_def
      update_consecutive_bars_def is_delta_bullish_def is_delta_bearish_def
      ex_of_config_def of_init_def deque_append_def Let_def)
  show ?thesis unfolding 1 using 2 3 4 by (simp add: is_pullback_def ex_vwap_config_def)
qed

end
